theory Spec2Isabelle
  imports Main "HOL-Library.Word"
begin

section \<open>The DICOM parser of parse.go\<close>

text \<open>
  The development embeds the three functions of \<^verbatim>\<open>parse.go\<close>: \<^verbatim>\<open>readHeader\<close>,
  \<^verbatim>\<open>NewParser\<close> and \<^verbatim>\<open>Parse\<close>. They are written against collaborators that live in
  other files of the repository: the limited reader (\<^verbatim>\<open>pkg/dicomio\<close>), the element
  decoder \<^verbatim>\<open>readElement\<close>, the data set lookup, the transfer syntax table
  (\<^verbatim>\<open>pkg/uid\<close>) and the character set registry (\<^verbatim>\<open>pkg/charset\<close>). The reader and
  the data set are modelled from the specification; the decoder and the two
  resolvers are parameters of the parser, so that what is proved of the parser holds
  for every decoder and every resolver.
\<close>

subsection \<open>Bytes, errors, tags\<close>

type_synonym byte = char

datatype ByteOrder = LittleEndian | BigEndian

text \<open>
  \<^verbatim>\<open>ErrorMagicWord\<close> and \<^verbatim>\<open>ErrorMetaElementGroupLength\<close> are the two error values
  declared in \<^verbatim>\<open>parse.go\<close>. The others are the error bands the specification names
  for the collaborators. \<open>GoPanic\<close> stands for a run-time panic (an index out of
  range, a failed \<^verbatim>\<open>MustGet\<close>): Go then unwinds the stack and the function returns
  nothing.
\<close>

datatype error =
    ErrorMagicWord
  | ErrorMetaElementGroupLength
  | ErrTruncated
  | ErrMalformedValue
  | ErrMalformedSequence
  | ErrUnknownTransferSyntax
  | ErrUnresolvableCharset
  | ErrMissingGeometry
  | ErrElementNotFound
  | GoPanic

datatype tag = DicomTag (Group: "16 word") (Element: "16 word")

text \<open>
  Modelled from the spec: the constants of the \<^verbatim>\<open>tag\<close> package that
  \<^verbatim>\<open>parse.go\<close> names. The specification gives (0002,0000) for the file-meta group
  length and (0002,0010) for the transfer syntax identifier; (0008,0005) is the number
  of SpecificCharacterSet in the DICOM data dictionary. No theorem below depends on
  the numbers.
\<close>

definition FileMetaInformationGroupLength :: tag where
  "FileMetaInformationGroupLength = DicomTag 0x0002 0x0000"

definition TransferSyntaxUID :: tag where
  "TransferSyntaxUID = DicomTag 0x0002 0x0010"

definition SpecificCharacterSet :: tag where
  "SpecificCharacterSet = DicomTag 0x0008 0x0005"

definition magicWord :: string where
  "magicWord = ''DICM''"

subsection \<open>Elements and data sets\<close>

text \<open>
  Modelled from the spec: the element record \<open>{Tag, VR, ValueLength, Value}\<close> and its
  value, a tagged union over the decoded forms (\<^verbatim>\<open>element.go\<close> is not among the
  sources). Floating point values are kept as their bit patterns. \<^verbatim>\<open>parse.go\<close> uses
  of it the variant test \<^verbatim>\<open>ValueType() != Ints\<close>, the read \<^verbatim>\<open>GetValue().([]int)\<close>
  and \<^verbatim>\<open>MustGetStrings\<close>.
\<close>

datatype frame = NativeFrame "byte list" | EncapsulatedFrame "byte list list"

text \<open>
  Modelled from the spec: the variants of a value, one for each decoded form of
  section 3. \<^verbatim>\<open>parse.go\<close> names the variant \<^verbatim>\<open>Ints\<close>.
\<close>

datatype valueTypes = Strings | Ints | Floats | Tags | Bytes | Sequences | PixelData

datatype 'e value_of =
    StringsValue "string list"
  | IntsValue "int list"
  | FloatsValue "nat list"
  | TagsValue "tag list"
  | BytesValue "byte list"
  | SequencesValue "'e list list"
  | PixelDataValue "frame list"

datatype element =
  Elem (Tag: tag) (VR: string) (ValueLength: nat) (Value: "element value_of")

type_synonym "value" = "element value_of"

text \<open>
  Modelled from the spec: \<^verbatim>\<open>Value.ValueType()\<close>, the variant of a value.
\<close>

fun ValueType :: "value \<Rightarrow> valueTypes" where
  "ValueType (StringsValue _) = Strings"
| "ValueType (IntsValue _) = Ints"
| "ValueType (FloatsValue _) = Floats"
| "ValueType (TagsValue _) = Tags"
| "ValueType (BytesValue _) = Bytes"
| "ValueType (SequencesValue _) = Sequences"
| "ValueType (PixelDataValue _) = PixelData"

text \<open>
  Modelled from the spec: \<^verbatim>\<open>GetValue().([]int)\<close>, the integers of a value of the
  integer list variant. The type assertion of Go panics on any other variant.
\<close>

fun GetInts :: "value \<Rightarrow> error + int list" where
  "GetInts (IntsValue ns) = Inr ns"
| "GetInts _ = Inl GoPanic"

text \<open>
  Modelled from the spec: \<^verbatim>\<open>MustGetStrings\<close>, the strings of a value of the text
  variant. As its name says, it panics on any other variant.
\<close>

fun MustGetStrings :: "value \<Rightarrow> error + string list" where
  "MustGetStrings (StringsValue ss) = Inr ss"
| "MustGetStrings _ = Inl GoPanic"

record Dataset =
  Elements :: "element list"

text \<open>
  Modelled from the spec: \<^verbatim>\<open>Dataset.FindElementByTag\<close>, lookup by tag, first
  match; an error when no element has the tag.
\<close>

definition FindElementByTag :: "Dataset \<Rightarrow> tag \<Rightarrow> error + element" where
  "FindElementByTag d t =
     (case find (\<lambda>e. Tag e = t) (Elements d) of
        None \<Rightarrow> Inl ErrElementNotFound
      | Some e \<Rightarrow> Inr e)"

subsection \<open>The limited reader\<close>

text \<open>
  Modelled from the spec: the reader of \<^verbatim>\<open>pkg/dicomio\<close> (section 4.1), which is
  not among the sources. It holds the unread bytes of the underlying source, the
  number of bytes consumed, the transfer syntax (byte order and implicit flag), the
  active character set decoder and the stack of limits, each limit kept as the offset
  at which its scope ends, innermost first. A character set decoder is identified by
  the encoding names it was resolved from.
\<close>

datatype CodingSystem = CodingSystem "string list"

record reader =
  source :: "byte list"
  bytesRead :: int
  byteOrder :: "ByteOrder option"
  isImplicit :: bool
  codingSystem :: "CodingSystem option"
  limitStack :: "int list"

text \<open>
  Modelled from the spec: \<^verbatim>\<open>dicomio.NewReader(in, bo, limit)\<close>. The source passes
  the count \<^verbatim>\<open>bytesToRead\<close> as limit; by section 6 the total byte count is
  optional and, when known, bounds the top-level scope, so the limit is an optional
  natural number. No failure of \<^verbatim>\<open>NewReader\<close> is specified. \<^verbatim>\<open>readHeader\<close> decodes
  the meta group with the reader as \<^verbatim>\<open>NewReader\<close> made it and must read explicit VR
  (the comment on its first line, and step 3 of section 4.6), so the fresh reader
  is in explicit VR.
\<close>

definition NewReader :: "byte list \<Rightarrow> ByteOrder \<Rightarrow> nat option \<Rightarrow> error + reader" where
  "NewReader inp order limit =
     Inr \<lparr> source = inp, bytesRead = 0, byteOrder = Some order, isImplicit = False,
           codingSystem = None,
           limitStack = (case limit of None \<Rightarrow> [] | Some n \<Rightarrow> [int n]) \<rparr>"

text \<open>
  Modelled from the spec: a read of \<open>n\<close> bytes crosses no active limit, hence not
  the narrowest.
\<close>

definition withinLimits :: "reader \<Rightarrow> int \<Rightarrow> bool" where
  "withinLimits r n = list_all (\<lambda>l. bytesRead r + n \<le> l) (limitStack r)"

text \<open>
  Modelled from the spec: \<^verbatim>\<open>Read(n)\<close> gives exactly \<open>n\<close> bytes or fails; a read that
  would cross an active limit fails with the error of the truncated stream.
\<close>

definition Read :: "nat \<Rightarrow> reader \<Rightarrow> error + (byte list \<times> reader)" where
  "Read n r =
     (if withinLimits r (int n) \<and> n \<le> length (source r)
      then Inr (take n (source r),
                r\<lparr> source := drop n (source r), bytesRead := bytesRead r + int n \<rparr>)
      else Inl ErrTruncated)"

text \<open>
  Modelled from the spec: \<^verbatim>\<open>ReadString(n)\<close>, \<open>n\<close> raw bytes as text with no codec
  involved, and \<^verbatim>\<open>Skip(n)\<close>, which advances without returning data.
\<close>

definition ReadString :: "nat \<Rightarrow> reader \<Rightarrow> error + (string \<times> reader)" where
  "ReadString n r = Read n r"

definition Skip :: "nat \<Rightarrow> reader \<Rightarrow> error + reader" where
  "Skip n r = (case Read n r of Inl err \<Rightarrow> Inl err | Inr (_, r') \<Rightarrow> Inr r')"

text \<open>
  Modelled from the spec: \<^verbatim>\<open>PushLimit(n)\<close> declares the next \<open>n\<close> bytes a sub-scope.
  The specification names no failure of it, while \<^verbatim>\<open>readHeader\<close> checks its error
  result (line 117). Since no read may cross an active limit, a sub-scope that
  would itself cross one is refused. The source passes \<^verbatim>\<open>int64(metaLen)\<close>, an integer
  that may be negative.
\<close>

definition PushLimit :: "int \<Rightarrow> reader \<Rightarrow> error + reader" where
  "PushLimit n r =
     (if withinLimits r n
      then Inr (r\<lparr> limitStack := (bytesRead r + n) # limitStack r \<rparr>)
      else Inl ErrTruncated)"

text \<open>
  Modelled from the spec: \<^verbatim>\<open>PopLimit\<close> leaves the innermost scope; draining the scope
  is left to the caller.
\<close>

definition PopLimit :: "reader \<Rightarrow> reader" where
  "PopLimit r = r\<lparr> limitStack := tl (limitStack r) \<rparr>"

text \<open>
  Modelled from the spec: \<^verbatim>\<open>IsLimitExhausted\<close> reports whether the narrowest limit
  has reached zero. An empty stack is unlimited.
\<close>

definition IsLimitExhausted :: "reader \<Rightarrow> bool" where
  "IsLimitExhausted r = list_ex (\<lambda>l. l - bytesRead r \<le> 0) (limitStack r)"

text \<open>
  Modelled from the spec: \<^verbatim>\<open>SetTransferSyntax\<close> installs the byte order and the
  implicit flag; \<^verbatim>\<open>SetCodingSystem\<close> installs the character set decoder. The byte
  order of Go is an interface value and may be \<^verbatim>\<open>nil\<close>.
\<close>

definition SetTransferSyntax :: "ByteOrder option \<Rightarrow> bool \<Rightarrow> reader \<Rightarrow> reader" where
  "SetTransferSyntax order implicit r = r\<lparr> byteOrder := order, isImplicit := implicit \<rparr>"

definition SetCodingSystem :: "CodingSystem \<Rightarrow> reader \<Rightarrow> reader" where
  "SetCodingSystem c r = r\<lparr> codingSystem := Some c \<rparr>"

subsection \<open>The collaborators taken as parameters\<close>

text \<open>
  Three functions that \<^verbatim>\<open>parse.go\<close> calls are not among the sources and are taken
  as parameters. \<^verbatim>\<open>readElement(r, d, fc)\<close> decodes one element from the reader; it may
  consult the data set read so far and sends the frames it extracts on the channel
  when there is one (the flag). It yields an error, or the element with the advanced
  reader and the frames it sent; it does not close the channel.
  \<^verbatim>\<open>uid.ParseTransferSyntaxUID\<close> returns a byte order (possibly \<^verbatim>\<open>nil\<close>), the implicit
  flag and an error (possibly \<^verbatim>\<open>nil\<close>); \<^verbatim>\<open>charset.ParseSpecificCharacterSet\<close>
  returns a decoder or an error.
\<close>

record collaborators =
  readElement :: "reader \<Rightarrow> Dataset option \<Rightarrow> bool \<Rightarrow> error + (element \<times> reader \<times> frame list)"
  ParseTransferSyntaxUID :: "string \<Rightarrow> (ByteOrder option \<times> bool) \<times> error option"
  ParseSpecificCharacterSet :: "string list \<Rightarrow> error + CodingSystem"

subsection \<open>parse.go\<close>

record options =
  assumeNoHeaderAndOffset :: bool

type_synonym Option = "options \<Rightarrow> options"

definition AssumeNoHeaderAndOffset :: Option where
  "AssumeNoHeaderAndOffset o1 = o1\<lparr> assumeNoHeaderAndOffset := True \<rparr>"

text \<open>
  The frame channel: the frames sent on it so far and the number of times it has
  been closed.
\<close>

record channel =
  sent :: "frame list"
  closes :: nat

definition send :: "frame list \<Rightarrow> channel option \<Rightarrow> channel option" where
  "send fs ch = map_option (\<lambda>c. c\<lparr> sent := sent c @ fs \<rparr>) ch"

definition close :: "channel \<Rightarrow> channel" where
  "close c = c\<lparr> closes := Suc (closes c) \<rparr>"

text \<open>The field \<^verbatim>\<open>file\<close> of the Go struct is never read or written by these functions.\<close>

record parser =
  reader :: reader
  dataset :: Dataset
  frameChannel :: "channel option"
  opts :: options

text \<open>
  The loop of \<^verbatim>\<open>readHeader\<close> (lines 121 to 131). It runs as long as the decoder
  succeeds and the limit is not exhausted; a run that never ends is \<open>None\<close>.
\<close>

partial_function (option) readMetaElems ::
  "collaborators \<Rightarrow> reader \<Rightarrow> element list \<Rightarrow> (error + (element list \<times> reader)) option"
where
  "readMetaElems env r metaElems =
     (if IsLimitExhausted r then Some (Inr (metaElems, r))
      else (case readElement env r None False of
              Inl err \<Rightarrow> Some (Inl err)
            | Inr (elem, r', fs) \<Rightarrow> readMetaElems env r' (metaElems @ [elem])))"

declare readMetaElems.simps [code]

text \<open>
  \<^verbatim>\<open>readHeader\<close>. The deferred \<^verbatim>\<open>PopLimit\<close> runs on every return after the push; on
  the error returns the caller drops the parser, so only the successful return shows
  the popped reader.
\<close>

definition readHeader ::
  "collaborators \<Rightarrow> reader \<Rightarrow> (error + (element list \<times> reader)) option"
where
  "readHeader env r =
     (case Skip 128 r of
        Inl err \<Rightarrow> Some (Inl err)
      | Inr r1 \<Rightarrow>
          (case ReadString 4 r1 of
             Inl err \<Rightarrow> Some (Inl ErrorMagicWord)
           | Inr (s, r2) \<Rightarrow>
               if s \<noteq> magicWord then Some (Inl ErrorMagicWord)
               else
                 (case readElement env r2 None False of
                    Inl err \<Rightarrow> Some (Inl err)
                  | Inr (maybeMetaLen, r3, fs) \<Rightarrow>
                      if Tag maybeMetaLen \<noteq> FileMetaInformationGroupLength
                         \<or> ValueType (Value maybeMetaLen) \<noteq> Ints
                      then Some (Inl ErrorMetaElementGroupLength)
                      else
                        (case GetInts (Value maybeMetaLen) of
                           Inl err \<Rightarrow> Some (Inl err)
                         | Inr [] \<Rightarrow> Some (Inl GoPanic)
                         | Inr (metaLen # _) \<Rightarrow>
                             (case PushLimit metaLen r3 of
                                Inl err \<Rightarrow> Some (Inl err)
                              | Inr r4 \<Rightarrow>
                                  (case readMetaElems env r4 [maybeMetaLen] of
                                     None \<Rightarrow> None
                                   | Some (Inl err) \<Rightarrow> Some (Inl err)
                                   | Some (Inr (metaElems, r5)) \<Rightarrow>
                                       Some (Inr (metaElems, PopLimit r5))))))))"

definition applyOptions :: "Option list \<Rightarrow> options" where
  "applyOptions os = fold (\<lambda>opt o1. opt o1) os \<lparr> assumeNoHeaderAndOffset = False \<rparr>"

definition NewParser ::
  "collaborators \<Rightarrow> byte list \<Rightarrow> nat option \<Rightarrow> channel option \<Rightarrow> Option list
     \<Rightarrow> (error + parser) option"
where
  "NewParser env inp bytesToRead fc os =
     (case NewReader inp LittleEndian bytesToRead of
        Inl err \<Rightarrow> Some (Inl err)
      | Inr rd \<Rightarrow>
          let p = \<lparr> reader = rd, dataset = \<lparr> Elements = [] \<rparr>, frameChannel = fc,
                    opts = applyOptions os \<rparr>
          in if \<not> assumeNoHeaderAndOffset (opts p)
             then (case readHeader env (reader p) of
                     None \<Rightarrow> None
                   | Some (Inl err) \<Rightarrow> Some (Inl err)
                   | Some (Inr (elems, rd')) \<Rightarrow>
                       Some (Inr (p\<lparr> reader := rd', dataset := \<lparr> Elements = elems \<rparr> \<rparr>)))
             else Some (Inr p))"

text \<open>
  What a call of \<^verbatim>\<open>Parse\<close> does: it returns a data set and possibly an error, or it
  panics.
\<close>

datatype outcome = Returns Dataset "error option" | Panics

text \<open>
  Lines 137 to 146 of \<^verbatim>\<open>Parse\<close>: the transfer syntax is taken from the meta
  elements. The two log lines leave no trace in the state. The result \<open>Inl\<close> is a
  panic: of \<^verbatim>\<open>MustGetStrings\<close>, of the index \<^verbatim>\<open>[0]\<close>, or of the resolver.
\<close>

definition selectTransferSyntax :: "collaborators \<Rightarrow> parser \<Rightarrow> error + parser" where
  "selectTransferSyntax env p =
     (case FindElementByTag (dataset p) TransferSyntaxUID of
        Inr ts \<Rightarrow>
          (case MustGetStrings (Value ts) of
             Inl err \<Rightarrow> Inl GoPanic
           | Inr [] \<Rightarrow> Inl GoPanic
           | Inr (u # _) \<Rightarrow>
               (case ParseTransferSyntaxUID env u of
                  ((order, implicit), err) \<Rightarrow>
                    if err = Some GoPanic then Inl GoPanic
                    else Inr (p\<lparr> reader := SetTransferSyntax order implicit (reader p) \<rparr>)))
      | Inl err \<Rightarrow> Inr p)"

text \<open>
  One turn of the loop of \<^verbatim>\<open>Parse\<close> (lines 149 to 170): either the function leaves
  with an outcome, or the loop goes on with the updated parser. When the decoder
  fails, what it had consumed and sent is not known to the caller; the parser is
  shown as it was before the call. A collaborator that panics, which is its result
  \<open>Inl GoPanic\<close>, makes \<^verbatim>\<open>Parse\<close> panic: nothing is returned.
\<close>

datatype turn = Leave outcome parser | Next parser

definition parseElement :: "collaborators \<Rightarrow> parser \<Rightarrow> turn" where
  "parseElement env p =
     (case readElement env (reader p) (Some (dataset p)) (frameChannel p \<noteq> None) of
        Inl err \<Rightarrow>
          if err = GoPanic then Leave Panics p
          else Leave (Returns \<lparr> Elements = [] \<rparr> (Some err)) p
      | Inr (elem, rd', fs) \<Rightarrow>
          let p1 = p\<lparr> reader := rd', frameChannel := send fs (frameChannel p) \<rparr>
          in if Tag elem = SpecificCharacterSet
             then (case MustGetStrings (Value elem) of
                     Inl err \<Rightarrow> Leave Panics p1
                   | Inr encodingNames \<Rightarrow>
                       (case ParseSpecificCharacterSet env encodingNames of
                          Inl err \<Rightarrow>
                            if err = GoPanic then Leave Panics p1
                            else Leave (Returns (dataset p1) (Some err)) p1
                        | Inr c \<Rightarrow>
                            Next (p1\<lparr> reader := SetCodingSystem c rd',
                                      dataset := \<lparr> Elements = Elements (dataset p1) @ [elem] \<rparr> \<rparr>)))
             else Next (p1\<lparr> dataset := \<lparr> Elements = Elements (dataset p1) @ [elem] \<rparr> \<rparr>))"

text \<open>Lines 174 to 177: the channel is closed when there is one.\<close>

definition finish :: "parser \<Rightarrow> outcome \<times> parser" where
  "finish p =
     (let p' = p\<lparr> frameChannel := map_option close (frameChannel p) \<rparr>
      in (Returns (dataset p') None, p'))"

partial_function (option) parseElements ::
  "collaborators \<Rightarrow> parser \<Rightarrow> (outcome \<times> parser) option"
where
  "parseElements env p =
     (if IsLimitExhausted (reader p) then Some (finish p)
      else (case parseElement env p of
              Leave res p' \<Rightarrow> Some (res, p')
            | Next p' \<Rightarrow> parseElements env p'))"

declare parseElements.simps [code]

definition Parse :: "collaborators \<Rightarrow> parser \<Rightarrow> (outcome \<times> parser) option" where
  "Parse env p =
     (case selectTransferSyntax env p of
        Inl err \<Rightarrow> Some (Panics, p)
      | Inr p' \<Rightarrow> parseElements env p')"

subsection \<open>What the decoder must respect\<close>

text \<open>
  A decoder that reads only through the reader leaves the limit stack as it found
  it, never moves backwards and never ends beyond an active limit.
\<close>

definition advances :: "reader \<Rightarrow> reader \<Rightarrow> bool" where
  "advances r r' \<longleftrightarrow>
     limitStack r' = limitStack r \<and> bytesRead r \<le> bytesRead r' \<and> withinLimits r' 0"

definition readsThroughReader ::
  "(reader \<Rightarrow> Dataset option \<Rightarrow> bool \<Rightarrow> error + (element \<times> reader \<times> frame list)) \<Rightarrow> bool"
where
  "readsThroughReader re \<longleftrightarrow>
     (\<forall>r d c e r' fs. re r d c = Inr (e, r', fs) \<longrightarrow> advances r r')"

text \<open>
  The reader inside a sub-scope that ends at offset \<open>lim\<close>, nested in the scopes
  \<open>rest\<close>.
\<close>

definition scoped :: "int \<Rightarrow> int list \<Rightarrow> reader \<Rightarrow> bool" where
  "scoped lim rest r \<longleftrightarrow>
     limitStack r = lim # rest \<and> bytesRead r \<le> lim \<and> (\<forall>l\<in>set rest. lim \<le> l)"

text \<open>
  The turns of the loop of \<^verbatim>\<open>readHeader\<close>: \<open>metaDecodes env r meta r'\<close> says that,
  started with the reader \<open>r\<close>, the loop has completed some turns, that these decoded
  the elements \<open>meta\<close> in this order, each from the reader that the turn before had
  left, and that the next turn starts with the reader \<open>r'\<close>.
\<close>

inductive metaDecodes :: "collaborators \<Rightarrow> reader \<Rightarrow> element list \<Rightarrow> reader \<Rightarrow> bool"
  for env :: collaborators and r :: reader
where
  metaDecodes_none: "metaDecodes env r [] r"
| metaDecodes_turn:
    "metaDecodes env r meta q \<Longrightarrow> \<not> IsLimitExhausted q
     \<Longrightarrow> readElement env q None False = Inr (elem, q', fs)
     \<Longrightarrow> metaDecodes env r (meta @ [elem]) q'"

text \<open>
  The turns of the loop of \<^verbatim>\<open>Parse\<close>: \<open>decodes env p body q\<close> says that, started
  in state \<open>p\<close>, the loop has completed some turns, that these decoded the elements
  \<open>body\<close> in this order, and that the next turn starts in state \<open>q\<close>.
\<close>

inductive decodes :: "collaborators \<Rightarrow> parser \<Rightarrow> element list \<Rightarrow> parser \<Rightarrow> bool"
  for env :: collaborators and p :: parser
where
  decodes_none: "decodes env p [] p"
| decodes_turn:
    "decodes env p body q \<Longrightarrow> \<not> IsLimitExhausted (reader q)
     \<Longrightarrow> readElement env (reader q) (Some (dataset q)) (frameChannel q \<noteq> None) = Inr (elem, rd, fs)
     \<Longrightarrow> parseElement env q = Next q'
     \<Longrightarrow> decodes env p (body @ [elem]) q'"

text \<open>A decoder that leaves the character set decoder of the reader alone.\<close>

definition keepsCodingSystem ::
  "(reader \<Rightarrow> Dataset option \<Rightarrow> bool \<Rightarrow> error + (element \<times> reader \<times> frame list)) \<Rightarrow> bool"
where
  "keepsCodingSystem re \<longleftrightarrow>
     (\<forall>r d c e r' fs. re r d c = Inr (e, r', fs) \<longrightarrow> codingSystem r' = codingSystem r)"

section \<open>An instance of the collaborators\<close>

text \<open>
  The theorems on the parser hold for every decoder. To run the parser on the bytes
  of a file, this section gives one decoder, for the elements of primitive value
  representation with a defined length, and one table for each resolver.
\<close>

subsection \<open>Primitive reads\<close>

text \<open>
  Modelled from the spec: \<^verbatim>\<open>ReadUint16\<close> and \<^verbatim>\<open>ReadUint32\<close> of the reader, which
  honour the current byte order, with the value of a group of bytes in either order,
  unsigned and in two's complement. A read of several bytes with a \<^verbatim>\<open>nil\<close> byte
  order panics.
\<close>

definition uintOf :: "ByteOrder \<Rightarrow> byte list \<Rightarrow> nat" where
  "uintOf order bs =
     (case order of
        LittleEndian \<Rightarrow> foldr (\<lambda>b acc. of_char b + 256 * acc) bs 0
      | BigEndian \<Rightarrow> foldl (\<lambda>acc b. 256 * acc + of_char b) 0 bs)"

definition sintOf :: "ByteOrder \<Rightarrow> byte list \<Rightarrow> int" where
  "sintOf order bs =
     (let u = int (uintOf order bs); m = 2 ^ (8 * length bs)
      in if 2 * u < m then u else u - m)"

definition ReadUInt :: "nat \<Rightarrow> reader \<Rightarrow> error + (nat \<times> reader)" where
  "ReadUInt k r =
     (case byteOrder r of
        None \<Rightarrow> Inl GoPanic
      | Some order \<Rightarrow>
          (case Read k r of
             Inl err \<Rightarrow> Inl err
           | Inr (bs, r') \<Rightarrow> Inr (uintOf order bs, r')))"

definition ReadUInt16 :: "reader \<Rightarrow> error + (nat \<times> reader)" where
  "ReadUInt16 = ReadUInt 2"

definition ReadUInt32 :: "reader \<Rightarrow> error + (nat \<times> reader)" where
  "ReadUInt32 = ReadUInt 4"

text \<open>
  Modelled from the spec: a binary value is a list of groups of the element size; a
  text value is split on the backslash after its trailing padding is removed.
\<close>

fun chunks :: "nat \<Rightarrow> 'a list \<Rightarrow> 'a list list" where
  "chunks k [] = []"
| "chunks k (x # xs) =
     (if k = 0 then [] else take k (x # xs) # chunks k (drop k (x # xs)))"

fun splitOn :: "char \<Rightarrow> string \<Rightarrow> string list" where
  "splitOn c [] = [[]]"
| "splitOn c (x # xs) =
     (if x = c then [] # splitOn c xs
      else (case splitOn c xs of [] \<Rightarrow> [[x]] | w # ws \<Rightarrow> (x # w) # ws))"

definition stripTrailing :: "char \<Rightarrow> string \<Rightarrow> string" where
  "stripTrailing c s = rev (dropWhile (\<lambda>x. x = c) (rev s))"

subsection \<open>The element header (section 4.2)\<close>

text \<open>
  Modelled from the spec: the header decoder of section 4.2 and the value decoder of
  section 4.3 (\<^verbatim>\<open>read.go\<close> is not among the sources), for the value representations
  of the table in section 3 with a defined length. An element that needs the
  sequence decoder of section 4.4 or the frame extractor of section 4.5 is outside
  this instance and is refused. Text is split on the backslash after the trailing
  padding is removed; the character set decoder is an external codec and is not
  applied. The tag dictionary is a parameter.
\<close>

definition longLengthVRs :: "string list" where
  "longLengthVRs = [''OB'', ''OW'', ''OF'', ''OD'', ''OL'', ''UN'', ''SQ'', ''UT'', ''UC'', ''UR'']"

definition textVRs :: "string list" where
  "textVRs = [''AE'', ''AS'', ''CS'', ''DS'', ''IS'', ''LO'', ''LT'', ''PN'', ''SH'', ''ST'',
              ''UI'', ''UR'', ''UC'', ''UT'', ''DA'', ''DT'', ''TM'']"

definition byteVRs :: "string list" where
  "byteVRs = [''OB'', ''OW'', ''OF'', ''OD'', ''OL'', ''UN'']"

definition PixelDataTag :: tag where
  "PixelDataTag = DicomTag 0x7FE0 0x0010"

definition undefinedLength :: nat where
  "undefinedLength = 0xFFFFFFFF"

definition readTag :: "reader \<Rightarrow> error + (tag \<times> reader)" where
  "readTag r =
     (case ReadUInt16 r of
        Inl err \<Rightarrow> Inl err
      | Inr (g, r1) \<Rightarrow>
          (case ReadUInt16 r1 of
             Inl err \<Rightarrow> Inl err
           | Inr (e, r2) \<Rightarrow> Inr (DicomTag (of_nat g) (of_nat e), r2)))"

definition readVR :: "(tag \<Rightarrow> string option) \<Rightarrow> tag \<Rightarrow> reader \<Rightarrow> error + (string \<times> reader)" where
  "readVR dict t r =
     (if isImplicit r
      then Inr (case dict t of None \<Rightarrow> ''UN'' | Some vr \<Rightarrow> vr, r)
      else ReadString 2 r)"

definition readVL :: "string \<Rightarrow> reader \<Rightarrow> error + (nat \<times> reader)" where
  "readVL vr r =
     (if isImplicit r then ReadUInt32 r
      else if vr \<in> set longLengthVRs
      then (case Skip 2 r of Inl err \<Rightarrow> Inl err | Inr r1 \<Rightarrow> ReadUInt32 r1)
      else ReadUInt16 r)"

subsection \<open>The value (section 4.3)\<close>

text \<open>
  Modelled from the spec: the value decoder of section 4.3. The length of a binary
  value must be a multiple of the element size. The padding removed from text is NUL
  for \<open>UI\<close> and the space otherwise.
\<close>

definition numericValue :: "ByteOrder \<Rightarrow> string \<Rightarrow> byte list \<Rightarrow> error + value" where
  "numericValue order vr bs =
     (let k = (if vr \<in> {''SS'', ''US''} then 2 else if vr = ''FD'' then 8 else 4) in
      if length bs mod k \<noteq> 0 then Inl ErrMalformedValue
      else if vr \<in> {''US'', ''UL''} then Inr (IntsValue (map (\<lambda>c. int (uintOf order c)) (chunks k bs)))
      else if vr \<in> {''SS'', ''SL''} then Inr (IntsValue (map (sintOf order) (chunks k bs)))
      else if vr \<in> {''FL'', ''FD''} then Inr (FloatsValue (map (uintOf order) (chunks k bs)))
      else Inr (TagsValue (map (\<lambda>c. DicomTag (of_nat (uintOf order (take 2 c)))
                                               (of_nat (uintOf order (drop 2 c)))) (chunks k bs))))"

definition readValue :: "tag \<Rightarrow> string \<Rightarrow> nat \<Rightarrow> reader \<Rightarrow> error + (value \<times> reader)" where
  "readValue t vr vl r =
     (if t = PixelDataTag \<or> vr = ''SQ'' \<or> vl = undefinedLength then Inl ErrMalformedSequence
      else if vr \<in> set textVRs
      then (case ReadString vl r of
              Inl err \<Rightarrow> Inl err
            | Inr (s, r') \<Rightarrow>
                Inr (StringsValue
                       (splitOn (CHR 0x5C)
                          (stripTrailing (if vr = ''UI'' then CHR 0x00 else CHR '' '') s)), r'))
      else if vr \<in> set byteVRs
      then (case Read vl r of Inl err \<Rightarrow> Inl err | Inr (bs, r') \<Rightarrow> Inr (BytesValue bs, r'))
      else if vr \<in> {''SS'', ''US'', ''SL'', ''UL'', ''FL'', ''FD'', ''AT''}
      then (case byteOrder r of
              None \<Rightarrow> Inl GoPanic
            | Some order \<Rightarrow>
                (case Read vl r of
                   Inl err \<Rightarrow> Inl err
                 | Inr (bs, r') \<Rightarrow>
                     (case numericValue order vr bs of
                        Inl err \<Rightarrow> Inl err
                      | Inr v \<Rightarrow> Inr (v, r'))))
      else Inl ErrMalformedValue)"

definition readPrimitiveElement ::
  "(tag \<Rightarrow> string option) \<Rightarrow> reader \<Rightarrow> Dataset option \<Rightarrow> bool
     \<Rightarrow> error + (element \<times> reader \<times> frame list)"
where
  "readPrimitiveElement dict r d fc =
     (case readTag r of
        Inl err \<Rightarrow> Inl err
      | Inr (t, r1) \<Rightarrow>
          (case readVR dict t r1 of
             Inl err \<Rightarrow> Inl err
           | Inr (vr, r2) \<Rightarrow>
               (case readVL vr r2 of
                  Inl err \<Rightarrow> Inl err
                | Inr (vl, r3) \<Rightarrow>
                    (case readValue t vr vl r3 of
                       Inl err \<Rightarrow> Inl err
                     | Inr (v, r4) \<Rightarrow> Inr (Elem t vr vl v, r4, [])))))"

subsection \<open>The tables\<close>

text \<open>
  Modelled from the spec: the tag dictionary, for the tags that the specification
  names with their value representation.
\<close>

definition tagDictionary :: "tag \<Rightarrow> string option" where
  "tagDictionary =
     map_of [(DicomTag 0x0002 0x0000, ''UL''), (DicomTag 0x0002 0x0010, ''UI''),
             (DicomTag 0x0008 0x0018, ''UI''), (DicomTag 0x0010 0x0010, ''PN''),
             (DicomTag 0x0040 0x0275, ''SQ'')]"

text \<open>
  Modelled from the spec: the transfer syntax table of section 4.7. The
  specification does not say which byte order and flag come with the error for an
  identifier outside the table; they are the parameter \<open>fallback\<close>.
\<close>

definition transferSyntaxTable :: "(string \<times> ByteOrder \<times> bool) list" where
  "transferSyntaxTable =
     [(''1.2.840.10008.1.2'', LittleEndian, True),
      (''1.2.840.10008.1.2.1'', LittleEndian, False),
      (''1.2.840.10008.1.2.2'', BigEndian, False),
      (''1.2.840.10008.1.2.1.99'', LittleEndian, False),
      (''1.2.840.10008.1.2.5'', LittleEndian, False)]"

definition tableTransferSyntax ::
  "ByteOrder option \<times> bool \<Rightarrow> string \<Rightarrow> (ByteOrder option \<times> bool) \<times> error option"
where
  "tableTransferSyntax fallback u =
     (case map_of transferSyntaxTable u of
        Some (order, implicit) \<Rightarrow> ((Some order, implicit), None)
      | None \<Rightarrow>
          if take 20 u = ''1.2.840.10008.1.2.4.'' then ((Some LittleEndian, False), None)
          else (fallback, Some ErrUnknownTransferSyntax))"

text \<open>
  Modelled from the spec: the character set registry, a black box of which one
  needs that it resolves some names and not others. The names registered are a
  parameter.
\<close>

definition registryCharacterSet :: "string list \<Rightarrow> string list \<Rightarrow> error + CodingSystem" where
  "registryCharacterSet known names =
     (if list_all (\<lambda>n. n \<in> set known) names then Inr (CodingSystem names)
      else Inl ErrUnresolvableCharset)"

text \<open>
  The collaborators with which the files below are parsed: the decoder and the tables
  of this section. For an identifier outside the table the resolver returns the zero
  values of Go with its error.
\<close>

definition fileCollaborators :: collaborators where
  "fileCollaborators =
     \<lparr> readElement = readPrimitiveElement tagDictionary,
       ParseTransferSyntaxUID = tableTransferSyntax (None, False),
       ParseSpecificCharacterSet = registryCharacterSet [''ISO_IR 100'', ''ISO_IR 192''] \<rparr>"

subsection \<open>Files\<close>

text \<open>
  The bytes of the files on which the parser is run below. All of them are in
  explicit VR, little endian. \<open>minimalFile\<close> is the first scenario of the
  specification as it is written there: a group length of 20, then the transfer
  syntax identifier as a UI element with a value of 22 bytes, then the patient name;
  \<open>minimalFileShort\<close> gives the identifier the 20 bytes of the string printed in the
  scenario. \<open>minimalFileFixed\<close> declares the 30 bytes that the rest of the meta group
  really has. \<open>negativeGroupLengthFile\<close> declares its group length as the signed
  integer -1; \<open>characterSetOnlyFile\<close> has no header and holds one element.
\<close>

definition preamble :: "byte list" where
  "preamble = replicate 128 (CHR 0x00)"

definition groupLengthElement :: "char \<Rightarrow> byte list" where
  "groupLengthElement n =
     [CHR 0x02, CHR 0x00, CHR 0x00, CHR 0x00] @ ''UL'' @ [CHR 0x04, CHR 0x00]
       @ [n, CHR 0x00, CHR 0x00, CHR 0x00]"

definition transferSyntaxElement :: "byte list" where
  "transferSyntaxElement =
     [CHR 0x02, CHR 0x00, CHR 0x10, CHR 0x00] @ ''UI'' @ [CHR 0x16, CHR 0x00]
       @ ''1.2.840.10008.1.2.1'' @ [CHR 0x00, CHR 0x00, CHR 0x00]"

definition transferSyntaxElementShort :: "byte list" where
  "transferSyntaxElementShort =
     [CHR 0x02, CHR 0x00, CHR 0x10, CHR 0x00] @ ''UI'' @ [CHR 0x14, CHR 0x00]
       @ ''1.2.840.10008.1.2.1'' @ [CHR 0x00]"

definition patientNameElement :: "byte list" where
  "patientNameElement =
     [CHR 0x10, CHR 0x00, CHR 0x10, CHR 0x00] @ ''PN'' @ [CHR 0x04, CHR 0x00] @ ''DOE^''"

definition characterSetElement :: "string \<Rightarrow> byte list" where
  "characterSetElement name =
     [CHR 0x08, CHR 0x00, CHR 0x05, CHR 0x00] @ ''CS'' @ [CHR 0x0A, CHR 0x00] @ name"

definition signedGroupLengthElement :: "byte list" where
  "signedGroupLengthElement =
     [CHR 0x02, CHR 0x00, CHR 0x00, CHR 0x00] @ ''SL'' @ [CHR 0x04, CHR 0x00]
       @ [CHR 0x00, CHR 0x00, CHR 0x00, CHR 0x00]"

definition negativeGroupLengthElement :: "byte list" where
  "negativeGroupLengthElement =
     [CHR 0x02, CHR 0x00, CHR 0x00, CHR 0x00] @ ''SL'' @ [CHR 0x04, CHR 0x00]
       @ [CHR 0xFF, CHR 0xFF, CHR 0xFF, CHR 0xFF]"

definition minimalFile :: "byte list" where
  "minimalFile =
     preamble @ ''DICM'' @ groupLengthElement (CHR 0x14) @ transferSyntaxElement
       @ patientNameElement"

definition minimalFileShort :: "byte list" where
  "minimalFileShort =
     preamble @ ''DICM'' @ groupLengthElement (CHR 0x14) @ transferSyntaxElementShort
       @ patientNameElement"

definition minimalFileFixed :: "byte list" where
  "minimalFileFixed =
     preamble @ ''DICM'' @ groupLengthElement (CHR 0x1E) @ transferSyntaxElement
       @ patientNameElement"

definition noTransferSyntaxFile :: "byte list" where
  "noTransferSyntaxFile =
     preamble @ ''DICM'' @ groupLengthElement (CHR 0x00) @ patientNameElement"

definition truncatedBodyFile :: "byte list" where
  "truncatedBodyFile =
     preamble @ ''DICM'' @ groupLengthElement (CHR 0x1E) @ transferSyntaxElement
       @ patientNameElement @ take 10 patientNameElement"

definition negativeGroupLengthFile :: "byte list" where
  "negativeGroupLengthFile =
     preamble @ ''DICM'' @ negativeGroupLengthElement @ transferSyntaxElement"

definition characterSetOnlyFile :: "byte list" where
  "characterSetOnlyFile = characterSetElement ''ISO_IR 999''"

definition badMagicFile :: "byte list" where
  "badMagicFile = preamble @ ''DICX''"

definition signedGroupLengthFile :: "byte list" where
  "signedGroupLengthFile = preamble @ ''DICM'' @ signedGroupLengthElement"

definition noGroupLengthFile :: "byte list" where
  "noGroupLengthFile = preamble @ ''DICM'' @ transferSyntaxElement"

definition characterSetFile :: "byte list" where
  "characterSetFile =
     preamble @ ''DICM'' @ groupLengthElement (CHR 0x1E) @ transferSyntaxElement
       @ characterSetElement ''ISO_IR 100'' @ patientNameElement"

definition unknownCharacterSetFile :: "byte list" where
  "unknownCharacterSetFile =
     preamble @ ''DICM'' @ groupLengthElement (CHR 0x1E) @ transferSyntaxElement
       @ patientNameElement @ characterSetElement ''ISO_IR 999''"

text \<open>
  The reader in explicit VR, little endian, at offset \<open>k\<close> of the input, and the
  elements that the files hold.
\<close>

definition readerAt :: "byte list \<Rightarrow> nat \<Rightarrow> int list \<Rightarrow> reader" where
  "readerAt inp k ls =
     \<lparr> source = drop k inp, bytesRead = int k, byteOrder = Some LittleEndian,
       isImplicit = False, codingSystem = None, limitStack = ls \<rparr>"

definition parserAt :: "reader \<Rightarrow> element list \<Rightarrow> channel option \<Rightarrow> parser" where
  "parserAt rd es fc =
     \<lparr> reader = rd, dataset = \<lparr> Elements = es \<rparr>, frameChannel = fc,
       opts = \<lparr> assumeNoHeaderAndOffset = False \<rparr> \<rparr>"

definition groupLength :: "int \<Rightarrow> element" where
  "groupLength n = Elem (DicomTag 0x0002 0x0000) ''UL'' 4 (IntsValue [n])"

definition transferSyntax :: element where
  "transferSyntax = Elem (DicomTag 0x0002 0x0010) ''UI'' 22 (StringsValue [''1.2.840.10008.1.2.1''])"

definition patientName :: element where
  "patientName = Elem (DicomTag 0x0010 0x0010) ''PN'' 4 (StringsValue [''DOE^''])"

definition characterSet :: "string \<Rightarrow> element" where
  "characterSet name = Elem (DicomTag 0x0008 0x0005) ''CS'' 10 (StringsValue [name])"

definition negativeGroupLength :: element where
  "negativeGroupLength = Elem (DicomTag 0x0002 0x0000) ''SL'' 4 (IntsValue [- 1])"

definition headerlessParser :: "reader \<Rightarrow> element list \<Rightarrow> parser" where
  "headerlessParser rd es =
     \<lparr> reader = rd, dataset = \<lparr> Elements = es \<rparr>, frameChannel = None,
       opts = \<lparr> assumeNoHeaderAndOffset = True \<rparr> \<rparr>"

definition openChannel :: channel where
  "openChannel = \<lparr> sent = [], closes = 0 \<rparr>"

section \<open>Properties\<close>

subsection \<open>The reader\<close>

lemma advances_refl: "withinLimits r 0 \<Longrightarrow> advances r r"
  by (simp add: advances_def)

lemma advances_trans: "advances r r' \<Longrightarrow> advances r' r'' \<Longrightarrow> advances r r''"
  by (auto simp: advances_def)

lemma advances_within: "advances r r' \<Longrightarrow> withinLimits r' 0"
  by (simp add: advances_def)

lemma Read_advances: "Read n r = Inr (bs, r') \<Longrightarrow> advances r r'"
  by (auto simp: Read_def advances_def withinLimits_def list_all_iff split: if_splits)

lemma Skip_advances: "Skip n r = Inr r' \<Longrightarrow> advances r r'"
  by (auto simp: Skip_def split: sum.splits dest: Read_advances)

lemma scoped_exhausted: "scoped lim rest r \<Longrightarrow> IsLimitExhausted r \<Longrightarrow> bytesRead r = lim"
  by (auto simp: scoped_def IsLimitExhausted_def list_ex_iff)

lemma scoped_advances: "scoped lim rest r \<Longrightarrow> advances r r' \<Longrightarrow> scoped lim rest r'"
  by (auto simp: scoped_def advances_def withinLimits_def list_all_iff)

lemma PushLimit_scoped:
  "PushLimit n r = Inr r' \<Longrightarrow> 0 \<le> n \<Longrightarrow> scoped (bytesRead r + n) (limitStack r) r'"
  by (auto simp: PushLimit_def scoped_def withinLimits_def list_all_iff split: if_splits)

subsection \<open>The loop of readHeader\<close>

lemma readMetaElems_scoped:
  assumes run: "readMetaElems env r acc = Some res"
  shows "readsThroughReader (readElement env) \<longrightarrow> scoped lim rest r \<longrightarrow>
         (\<forall>elems r'. res = Inr (elems, r') \<longrightarrow> bytesRead r' = lim \<and> limitStack r' = lim # rest)"
proof (rule readMetaElems.raw_induct [rotated, OF run])
  fix f env r acc res
  assume IH: "\<And>env r acc res. f env r acc = Some res \<Longrightarrow>
      readsThroughReader (readElement env) \<longrightarrow> scoped lim rest r \<longrightarrow>
      (\<forall>elems r'. res = Inr (elems, r') \<longrightarrow> bytesRead r' = lim \<and> limitStack r' = lim # rest)"
    and body: "(if IsLimitExhausted r then Some (Inr (acc, r))
      else case readElement env r None False of Inl err \<Rightarrow> Some (Inl err)
           | Inr (elem, r', fs) \<Rightarrow> f env r' (acc @ [elem])) = Some res"
  show "readsThroughReader (readElement env) \<longrightarrow> scoped lim rest r \<longrightarrow>
      (\<forall>elems r'. res = Inr (elems, r') \<longrightarrow> bytesRead r' = lim \<and> limitStack r' = lim # rest)"
  proof (intro impI allI)
    fix elems r'
    assume rt: "readsThroughReader (readElement env)" and sc: "scoped lim rest r"
      and res: "res = Inr (elems, r')"
    show "bytesRead r' = lim \<and> limitStack r' = lim # rest"
    proof (cases "IsLimitExhausted r")
      case True
      with body res have "r' = r" by simp
      with sc True show ?thesis by (simp add: scoped_exhausted) (simp add: scoped_def)
    next
      case False
      with body res obtain elem r1 fs where re: "readElement env r None False = Inr (elem, r1, fs)"
        and rec: "f env r1 (acc @ [elem]) = Some res"
        by (auto split: sum.splits)
      from rt re have "advances r r1" unfolding readsThroughReader_def by blast
      with sc have "scoped lim rest r1" by (rule scoped_advances)
      with IH [OF rec] rt res show ?thesis by blast
    qed
  qed
qed

lemma readMetaElems_exhausted:
  "IsLimitExhausted r \<Longrightarrow> readMetaElems env r acc = Some (Inr (acc, r))"
  by (subst readMetaElems.simps) simp

lemma PushLimit_negative:
  "PushLimit n r = Inr r' \<Longrightarrow> n < 0
   \<Longrightarrow> IsLimitExhausted r' \<and> bytesRead r' = bytesRead r
       \<and> limitStack r' = (bytesRead r + n) # limitStack r"
  by (auto simp: PushLimit_def IsLimitExhausted_def split: if_splits)

lemma metaDecodes_first:
  assumes "\<not> IsLimitExhausted r"
    and "readElement env r None False = Inr (elem, r1, fs)"
  shows "metaDecodes env r1 meta q \<Longrightarrow> metaDecodes env r (elem # meta) q"
proof (induction rule: metaDecodes.induct)
  case metaDecodes_none
  have "metaDecodes env r ([] @ [elem]) r1"
    using metaDecodes.metaDecodes_none assms by (rule metaDecodes.metaDecodes_turn)
  then show ?case by simp
next
  case (metaDecodes_turn meta q elem' q' fs')
  have "metaDecodes env r ((elem # meta) @ [elem']) q'"
    using metaDecodes_turn.IH metaDecodes_turn.hyps(2,3) by (rule metaDecodes.metaDecodes_turn)
  then show ?case by simp
qed

text \<open>
  What the loop returns: the elements it started with, followed by the elements
  that its turns decoded, in this order, up to the exhaustion of the limit.
\<close>

lemma readMetaElems_trace:
  assumes run: "readMetaElems env r acc = Some res"
  shows "\<forall>elems r'. res = Inr (elems, r') \<longrightarrow>
           (\<exists>meta. elems = acc @ meta \<and> metaDecodes env r meta r' \<and> IsLimitExhausted r')"
proof (rule readMetaElems.raw_induct [rotated, OF run])
  fix f env r acc res
  assume IH: "\<And>env r acc res. f env r acc = Some res \<Longrightarrow>
      \<forall>elems r'. res = Inr (elems, r') \<longrightarrow>
        (\<exists>meta. elems = acc @ meta \<and> metaDecodes env r meta r' \<and> IsLimitExhausted r')"
    and body: "(if IsLimitExhausted r then Some (Inr (acc, r))
      else case readElement env r None False of Inl err \<Rightarrow> Some (Inl err)
           | Inr (elem, r', fs) \<Rightarrow> f env r' (acc @ [elem])) = Some res"
  show "\<forall>elems r'. res = Inr (elems, r') \<longrightarrow>
      (\<exists>meta. elems = acc @ meta \<and> metaDecodes env r meta r' \<and> IsLimitExhausted r')"
  proof (intro impI allI)
    fix elems r'
    assume res: "res = Inr (elems, r')"
    show "\<exists>meta. elems = acc @ meta \<and> metaDecodes env r meta r' \<and> IsLimitExhausted r'"
    proof (cases "IsLimitExhausted r")
      case True
      with body res have "elems = acc" "r' = r" by simp_all
      with True metaDecodes_none show ?thesis by auto
    next
      case False
      with body res obtain elem r1 fs where
        re: "readElement env r None False = Inr (elem, r1, fs)" and
        rec: "f env r1 (acc @ [elem]) = Some res"
        by (auto split: sum.splits)
      from IH [OF rec] res obtain meta where
        el: "elems = (acc @ [elem]) @ meta" and tr: "metaDecodes env r1 meta r'"
        and ex: "IsLimitExhausted r'" by blast
      from metaDecodes_first [OF False re tr] have "metaDecodes env r (elem # meta) r'" .
      with el ex show ?thesis by auto
    qed
  qed
qed

subsection \<open>The loop of Parse\<close>

lemma parseElement_Next:
  assumes "parseElement env q = Next q'"
    and "readElement env (reader q) (Some (dataset q)) (frameChannel q \<noteq> None) = Inr (elem, rd, fs)"
  shows "Elements (dataset q') = Elements (dataset q) @ [elem]"
    and "Tag elem \<noteq> SpecificCharacterSet \<Longrightarrow> reader q' = rd"
    and "Tag elem = SpecificCharacterSet \<Longrightarrow>
           \<exists>names c. MustGetStrings (Value elem) = Inr names
             \<and> ParseSpecificCharacterSet env names = Inr c
             \<and> reader q' = SetCodingSystem c rd"
  using assms by (auto simp: parseElement_def Let_def split: if_splits sum.splits)

lemma decodes_same_loop:
  "decodes env p body q \<Longrightarrow> parseElements env p = parseElements env q"
proof (induction rule: decodes.induct)
  case decodes_none
  show ?case by simp
next
  case (decodes_turn body q elem rd fs q')
  have "parseElements env q = parseElements env q'"
    using decodes_turn.hyps(2,4) by (subst parseElements.simps) simp
  with decodes_turn.IH show ?case by simp
qed

lemma decodes_dataset:
  "decodes env p body q \<Longrightarrow> Elements (dataset q) = Elements (dataset p) @ body"
proof (induction rule: decodes.induct)
  case decodes_none
  show ?case by simp
next
  case (decodes_turn body q elem rd fs q')
  from parseElement_Next(1) [OF decodes_turn.hyps(4) decodes_turn.hyps(3)] decodes_turn.IH
  show ?case by simp
qed

lemma decodes_first:
  assumes "\<not> IsLimitExhausted (reader p)"
    and "readElement env (reader p) (Some (dataset p)) (frameChannel p \<noteq> None) = Inr (elem, rd, fs)"
    and "parseElement env p = Next p1"
  shows "decodes env p1 body q \<Longrightarrow> decodes env p (elem # body) q"
proof (induction rule: decodes.induct)
  case decodes_none
  have "decodes env p ([] @ [elem]) p1"
    using decodes.decodes_none assms by (rule decodes.decodes_turn)
  then show ?case by simp
next
  case (decodes_turn body q elem' rd' fs' q')
  have "decodes env p ((elem # body) @ [elem']) q'"
    using decodes_turn.IH decodes_turn.hyps(2,3,4) by (rule decodes.decodes_turn)
  then show ?case by simp
qed

lemma decodes_codingSystem:
  assumes keeps: "keepsCodingSystem (readElement env)"
  shows "decodes env p body q \<Longrightarrow> \<forall>e\<in>set body. Tag e \<noteq> SpecificCharacterSet
           \<Longrightarrow> codingSystem (reader q) = codingSystem (reader p)"
proof (induction rule: decodes.induct)
  case decodes_none
  show ?case by simp
next
  case (decodes_turn body q elem rd fs q')
  from decodes_turn.prems have plain: "Tag elem \<noteq> SpecificCharacterSet"
    and before: "\<forall>e\<in>set body. Tag e \<noteq> SpecificCharacterSet" by simp_all
  from parseElement_Next(2) [OF decodes_turn.hyps(4) decodes_turn.hyps(3) plain]
  have "reader q' = rd" .
  moreover from keeps decodes_turn.hyps(3) have "codingSystem rd = codingSystem (reader q)"
    unfolding keepsCodingSystem_def by blast
  ultimately show ?case using decodes_turn.IH [OF before] by simp
qed

lemma parseElement_Leave_error:
  "parseElement env p = Leave (Returns d None) p' \<Longrightarrow> False"
  by (auto simp: parseElement_def Let_def split: if_splits sum.splits prod.splits)

lemma parseElement_Next_decoded:
  "parseElement env p = Next p1 \<Longrightarrow>
     \<exists>elem rd fs. readElement env (reader p) (Some (dataset p)) (frameChannel p \<noteq> None) = Inr (elem, rd, fs)"
  by (auto simp: parseElement_def Let_def split: if_splits sum.splits prod.splits)

lemma parseElements_clean:
  assumes run: "parseElements env p = Some res"
  shows "\<forall>d q'. res = (Returns d None, q') \<longrightarrow>
           (\<exists>body q. decodes env p body q \<and> IsLimitExhausted (reader q) \<and> finish q = (Returns d None, q'))"
proof (rule parseElements.raw_induct [rotated, OF run])
  fix f env p res
  assume IH: "\<And>env p res. f env p = Some res \<Longrightarrow>
      \<forall>d q'. res = (Returns d None, q') \<longrightarrow>
        (\<exists>body q. decodes env p body q \<and> IsLimitExhausted (reader q) \<and> finish q = (Returns d None, q'))"
    and body: "(if IsLimitExhausted (reader p) then Some (finish p)
      else case parseElement env p of Leave res p' \<Rightarrow> Some (res, p')
           | Next p' \<Rightarrow> f env p') = Some res"
  show "\<forall>d q'. res = (Returns d None, q') \<longrightarrow>
      (\<exists>body q. decodes env p body q \<and> IsLimitExhausted (reader q) \<and> finish q = (Returns d None, q'))"
  proof (intro allI impI)
    fix d q'
    assume res: "res = (Returns d None, q')"
    show "\<exists>body q. decodes env p body q \<and> IsLimitExhausted (reader q) \<and> finish q = (Returns d None, q')"
    proof (cases "IsLimitExhausted (reader p)")
      case True
      with body res have "finish p = (Returns d None, q')" by simp
      with True decodes_none show ?thesis by blast
    next
      case False
      show ?thesis
      proof (cases "parseElement env p")
        case (Leave out p')
        with body False res have "parseElement env p = Leave (Returns d None) q'" by simp
        then show ?thesis by (blast dest: parseElement_Leave_error)
      next
        case (Next p1)
        with body False have rec: "f env p1 = Some res" by simp
        from IH [OF rec] res obtain body1 q where
          d1: "decodes env p1 body1 q" and ex: "IsLimitExhausted (reader q)"
          and fin: "finish q = (Returns d None, q')" by blast
        from parseElement_Next_decoded [OF Next] obtain elem rd fs where
          re: "readElement env (reader p) (Some (dataset p)) (frameChannel p \<noteq> None) = Inr (elem, rd, fs)"
          by blast
        from decodes_first [OF False re Next d1] ex fin show ?thesis by blast
      qed
    qed
  qed
qed

subsection \<open>The primitive decoder reads through the reader\<close>

lemma ReadUInt_advances: "ReadUInt k r = Inr (n, r') \<Longrightarrow> advances r r'"
  by (auto simp: ReadUInt_def split: option.splits sum.splits dest: Read_advances)

lemma readTag_advances: "readTag r = Inr (t, r') \<Longrightarrow> advances r r'"
  by (auto simp: readTag_def ReadUInt16_def split: sum.splits
      dest!: ReadUInt_advances intro: advances_trans)

lemma readVR_advances:
  "withinLimits r 0 \<Longrightarrow> readVR dict t r = Inr (vr, r') \<Longrightarrow> advances r r'"
  by (auto simp: readVR_def ReadString_def advances_refl split: if_splits dest: Read_advances)

lemma readVL_advances: "readVL vr r = Inr (vl, r') \<Longrightarrow> advances r r'"
  by (auto simp: readVL_def ReadUInt32_def ReadUInt16_def split: if_splits sum.splits
      dest!: ReadUInt_advances Skip_advances intro: advances_trans)

lemma readValue_advances: "readValue t vr vl r = Inr (v, r') \<Longrightarrow> advances r r'"
  unfolding readValue_def ReadString_def
  by (auto split: if_splits sum.splits option.splits dest: Read_advances)

lemma readPrimitiveElement_advances:
  assumes "readPrimitiveElement dict r d c = Inr (e, r', fs)"
  shows "advances r r'"
proof -
  from assms obtain t r1 vr r2 vl r3 v where
    a: "readTag r = Inr (t, r1)" and b: "readVR dict t r1 = Inr (vr, r2)"
    and c: "readVL vr r2 = Inr (vl, r3)" and d: "readValue t vr vl r3 = Inr (v, r')"
    by (auto simp: readPrimitiveElement_def split: sum.splits)
  have 1: "advances r r1" using a by (rule readTag_advances)
  have 2: "advances r1 r2" using advances_within [OF 1] b by (rule readVR_advances)
  have 3: "advances r2 r3" using c by (rule readVL_advances)
  have 4: "advances r3 r'" using d by (rule readValue_advances)
  show ?thesis using 1 2 3 4 by (blast intro: advances_trans)
qed

lemma readsThroughReader_primitive: "readsThroughReader (readPrimitiveElement dict)"
  unfolding readsThroughReader_def by (blast intro: readPrimitiveElement_advances)

subsection \<open>Further facts on the functions of parse.go\<close>

lemma Read_keeps:
  "Read n r = Inr (bs, r') \<Longrightarrow> codingSystem r' = codingSystem r"
  by (auto simp: Read_def split: if_splits)

lemma ReadUInt_keeps: "ReadUInt k r = Inr (n, r') \<Longrightarrow> codingSystem r' = codingSystem r"
  by (auto simp: ReadUInt_def split: option.splits sum.splits dest: Read_keeps)

lemma readTag_keeps: "readTag r = Inr (t, r') \<Longrightarrow> codingSystem r' = codingSystem r"
  by (auto simp: readTag_def ReadUInt16_def split: sum.splits dest!: ReadUInt_keeps)

lemma readVR_keeps: "readVR dict t r = Inr (vr, r') \<Longrightarrow> codingSystem r' = codingSystem r"
  by (auto simp: readVR_def ReadString_def split: if_splits dest: Read_keeps)

lemma readVL_keeps: "readVL vr r = Inr (vl, r') \<Longrightarrow> codingSystem r' = codingSystem r"
  by (auto simp: readVL_def ReadUInt32_def ReadUInt16_def Skip_def split: if_splits sum.splits
      dest!: ReadUInt_keeps Read_keeps)

lemma readValue_keeps: "readValue t vr vl r = Inr (v, r') \<Longrightarrow> codingSystem r' = codingSystem r"
  unfolding readValue_def ReadString_def
  by (auto split: if_splits sum.splits option.splits dest: Read_keeps)

lemma keepsCodingSystem_primitive: "keepsCodingSystem (readPrimitiveElement dict)"
proof -
  have "codingSystem r' = codingSystem r"
    if "readPrimitiveElement dict r d c = Inr (e, r', fs)" for r d c e r' fs
  proof -
    from that obtain t r1 vr r2 vl r3 v where
      "readTag r = Inr (t, r1)" "readVR dict t r1 = Inr (vr, r2)"
      "readVL vr r2 = Inr (vl, r3)" "readValue t vr vl r3 = Inr (v, r')"
      by (auto simp: readPrimitiveElement_def split: sum.splits)
    then show ?thesis
      by (simp add: readTag_keeps readVR_keeps readVL_keeps readValue_keeps)
  qed
  then show ?thesis unfolding keepsCodingSystem_def by blast
qed

lemma readHeader_success:
  assumes ok: "readHeader env r = Some (Inr (elems, r'))"
  shows "\<exists>r1 r2 e r3 fs L others r4 r5.
           Skip 128 r = Inr r1 \<and> ReadString 4 r1 = Inr (magicWord, r2)
         \<and> readElement env r2 None False = Inr (e, r3, fs)
         \<and> Tag e = FileMetaInformationGroupLength \<and> GetInts (Value e) = Inr (L # others)
         \<and> PushLimit L r3 = Inr r4 \<and> readMetaElems env r4 [e] = Some (Inr (elems, r5))
         \<and> r' = PopLimit r5"
proof -
  from ok obtain r1 where a: "Skip 128 r = Inr r1"
    by (cases "Skip 128 r") (simp_all add: readHeader_def)
  from ok a obtain s r2 where b0: "ReadString 4 r1 = Inr (s, r2)"
    by (cases "ReadString 4 r1") (auto simp: readHeader_def)
  from ok a b0 have s: "s = magicWord"
    by (cases "s = magicWord") (simp_all add: readHeader_def)
  from ok a b0 s obtain e r3 fs where c: "readElement env r2 None False = Inr (e, r3, fs)"
    by (cases "readElement env r2 None False") (auto simp: readHeader_def)
  from ok a b0 s c have d: "Tag e = FileMetaInformationGroupLength \<and> ValueType (Value e) = Ints"
    by (auto simp: readHeader_def split: if_splits)
  from ok a b0 s c d obtain L others where e: "GetInts (Value e) = Inr (L # others)"
    by (cases "GetInts (Value e)") (auto simp: readHeader_def split: list.splits)
  from ok a b0 s c d e obtain r4 where f: "PushLimit L r3 = Inr r4"
    by (cases "PushLimit L r3") (auto simp: readHeader_def)
  from ok a b0 s c d e f obtain r5 where
    g: "readMetaElems env r4 [e] = Some (Inr (elems, r5))" and h: "r' = PopLimit r5"
    by (auto simp: readHeader_def split: option.splits sum.splits)
  from a b0 s c d e f g h show ?thesis by blast
qed

lemma selectTransferSyntax_dataset:
  "selectTransferSyntax env p = Inr p0 \<Longrightarrow>
     dataset p0 = dataset p \<and> frameChannel p0 = frameChannel p"
  by (auto simp: selectTransferSyntax_def split: sum.splits list.splits prod.splits if_splits)

text \<open>
  When the meta elements hold no transfer syntax identifier, \<^verbatim>\<open>Parse\<close> goes on and
  the reader keeps the transfer syntax it had.
\<close>

lemma selectTransferSyntax_missing:
  "FindElementByTag (dataset p) TransferSyntaxUID = Inl err \<Longrightarrow> selectTransferSyntax env p = Inr p"
  by (simp add: selectTransferSyntax_def)

text \<open>
  When the identifier is there and the resolver returns, the reader takes the byte
  order and the flag that it returns, with or without an error.
\<close>

lemma selectTransferSyntax_present:
  "FindElementByTag (dataset p) TransferSyntaxUID = Inr ts
   \<Longrightarrow> MustGetStrings (Value ts) = Inr (u # us)
   \<Longrightarrow> ParseTransferSyntaxUID env u = ((order, implicit), err)
   \<Longrightarrow> err \<noteq> Some GoPanic
   \<Longrightarrow> selectTransferSyntax env p = Inr (p\<lparr> reader := SetTransferSyntax order implicit (reader p) \<rparr>)"
  by (simp add: selectTransferSyntax_def)

subsection \<open>Running the parser on the files\<close>

lemmas reader_simps = NewReader_def Read_def ReadString_def Skip_def PushLimit_def PopLimit_def
  IsLimitExhausted_def withinLimits_def SetTransferSyntax_def SetCodingSystem_def

lemmas decoder_simps = readPrimitiveElement_def readTag_def readVR_def readVL_def readValue_def
  numericValue_def ReadUInt_def ReadUInt16_def ReadUInt32_def uintOf_def sintOf_def
  longLengthVRs_def textVRs_def byteVRs_def PixelDataTag_def undefinedLength_def
  stripTrailing_def tagDictionary_def

lemmas table_simps = fileCollaborators_def tableTransferSyntax_def transferSyntaxTable_def
  registryCharacterSet_def magicWord_def FileMetaInformationGroupLength_def
  TransferSyntaxUID_def SpecificCharacterSet_def

lemmas file_simps = preamble_def groupLengthElement_def transferSyntaxElement_def
  transferSyntaxElementShort_def patientNameElement_def characterSetElement_def
  signedGroupLengthElement_def negativeGroupLengthElement_def readerAt_def parserAt_def
  headerlessParser_def groupLength_def negativeGroupLength_def transferSyntax_def
  patientName_def characterSet_def openChannel_def

lemmas parser_simps = NewParser_def readHeader_def applyOptions_def readMetaElems.simps
  Parse_def selectTransferSyntax_def FindElementByTag_def parseElements.simps parseElement_def
  finish_def send_def close_def Let_def

lemma fresh_reader: "NewReader inp LittleEndian (Some n) = Inr (readerAt inp 0 [int n])"
  by (simp add: NewReader_def readerAt_def)

lemma header_minimalFileFixed:
  "readHeader fileCollaborators (readerAt minimalFileFixed 0 [186])
     = Some (Inr ([groupLength 30, transferSyntax], readerAt minimalFileFixed 174 [186]))"
  by (simp add: minimalFileFixed_def parser_simps reader_simps decoder_simps table_simps file_simps)

lemma first_minimalFileFixed:
  "Skip 128 (readerAt minimalFileFixed 0 [186]) = Inr (readerAt minimalFileFixed 128 [186])"
  "ReadString 4 (readerAt minimalFileFixed 128 [186]) = Inr (magicWord, readerAt minimalFileFixed 132 [186])"
  "readElement fileCollaborators (readerAt minimalFileFixed 132 [186]) None False
     = Inr (groupLength 30, readerAt minimalFileFixed 144 [186], [])"
  by (simp_all add: minimalFileFixed_def reader_simps decoder_simps table_simps file_simps)

lemma NewParser_signedGroupLengthFile:
  "NewParser fileCollaborators signedGroupLengthFile (Some 144) None []
     = Some (Inr (parserAt (readerAt signedGroupLengthFile 144 [144])
                    [Elem (DicomTag 0x0002 0x0000) ''SL'' 4 (IntsValue [0])] None))"
  by (simp add: signedGroupLengthFile_def parser_simps reader_simps decoder_simps table_simps file_simps)

lemma first_signedGroupLengthFile:
  "readElement fileCollaborators (readerAt signedGroupLengthFile 132 [144]) None False
     = Inr (Elem (DicomTag 0x0002 0x0000) ''SL'' 4 (IntsValue [0]),
            readerAt signedGroupLengthFile 144 [144], [])"
  by (simp add: signedGroupLengthFile_def reader_simps decoder_simps table_simps file_simps)

lemma first_noGroupLengthFile:
  "Skip 128 (readerAt noGroupLengthFile 0 [162]) = Inr (readerAt noGroupLengthFile 128 [162])"
  "ReadString 4 (readerAt noGroupLengthFile 128 [162]) = Inr (magicWord, readerAt noGroupLengthFile 132 [162])"
  "readElement fileCollaborators (readerAt noGroupLengthFile 132 [162]) None False
     = Inr (transferSyntax, readerAt noGroupLengthFile 162 [162], [])"
  by (simp_all add: noGroupLengthFile_def reader_simps decoder_simps table_simps file_simps)

lemma select_truncatedBodyFile:
  "selectTransferSyntax fileCollaborators
     (parserAt (readerAt truncatedBodyFile 174 [196]) [groupLength 30, transferSyntax] (Some openChannel))
   = Inr (parserAt (readerAt truncatedBodyFile 174 [196]) [groupLength 30, transferSyntax] (Some openChannel))"
  by (simp add: parser_simps reader_simps table_simps file_simps)

lemma turn_truncatedBodyFile:
  "\<not> IsLimitExhausted (reader (parserAt (readerAt truncatedBodyFile 174 [196])
        [groupLength 30, transferSyntax] (Some openChannel)))"
  "readElement fileCollaborators (readerAt truncatedBodyFile 174 [196])
      (Some \<lparr> Elements = [groupLength 30, transferSyntax] \<rparr>) True
     = Inr (patientName, readerAt truncatedBodyFile 186 [196], [])"
  "parseElement fileCollaborators
      (parserAt (readerAt truncatedBodyFile 174 [196]) [groupLength 30, transferSyntax] (Some openChannel))
     = Next (parserAt (readerAt truncatedBodyFile 186 [196])
              [groupLength 30, transferSyntax, patientName] (Some openChannel))"
  by (simp_all add: truncatedBodyFile_def parser_simps reader_simps decoder_simps table_simps file_simps)

lemma fail_truncatedBodyFile:
  "\<not> IsLimitExhausted (reader (parserAt (readerAt truncatedBodyFile 186 [196])
        [groupLength 30, transferSyntax, patientName] (Some openChannel)))"
  "readElement fileCollaborators (readerAt truncatedBodyFile 186 [196])
      (Some \<lparr> Elements = [groupLength 30, transferSyntax, patientName] \<rparr>) True
     = Inl ErrTruncated"
  by (simp_all add: truncatedBodyFile_def parser_simps reader_simps decoder_simps table_simps file_simps)

lemma NewParser_truncatedBodyFile:
  "NewParser fileCollaborators truncatedBodyFile (Some 196) (Some openChannel) []
     = Some (Inr (parserAt (readerAt truncatedBodyFile 174 [196])
                    [groupLength 30, transferSyntax] (Some openChannel)))"
  by (simp add: truncatedBodyFile_def parser_simps reader_simps decoder_simps table_simps file_simps)

lemma Parse_truncatedBodyFile:
  "Parse fileCollaborators
     (parserAt (readerAt truncatedBodyFile 174 [196]) [groupLength 30, transferSyntax] (Some openChannel))
   = Some (Returns \<lparr> Elements = [] \<rparr> (Some ErrTruncated),
           parserAt (readerAt truncatedBodyFile 186 [196])
             [groupLength 30, transferSyntax, patientName] (Some openChannel))"
proof -
  let ?p = "parserAt (readerAt truncatedBodyFile 174 [196]) [groupLength 30, transferSyntax] (Some openChannel)"
  let ?q = "parserAt (readerAt truncatedBodyFile 186 [196]) [groupLength 30, transferSyntax, patientName] (Some openChannel)"
  have "Parse fileCollaborators ?p = parseElements fileCollaborators ?p"
    using select_truncatedBodyFile by (simp add: Parse_def)
  also have "\<dots> = parseElements fileCollaborators ?q"
    using turn_truncatedBodyFile(1,3) by (subst parseElements.simps) simp
  also have "\<dots> = Some (Returns \<lparr> Elements = [] \<rparr> (Some ErrTruncated), ?q)"
    using fail_truncatedBodyFile
    by (subst parseElements.simps) (simp add: parseElement_def parserAt_def)
  finally show ?thesis .
qed

lemma turns_characterSetFile:
  "readElement fileCollaborators (readerAt characterSetFile 174 [204])
      (Some \<lparr> Elements = [groupLength 30, transferSyntax] \<rparr>) False
     = Inr (characterSet ''ISO_IR 100'', readerAt characterSetFile 192 [204], [])"
  "parseElement fileCollaborators
      (parserAt (readerAt characterSetFile 174 [204]) [groupLength 30, transferSyntax] None)
     = Next (parserAt ((readerAt characterSetFile 192 [204])
                         \<lparr> codingSystem := Some (CodingSystem [''ISO_IR 100'']) \<rparr>)
              [groupLength 30, transferSyntax, characterSet ''ISO_IR 100''] None)"
  "\<not> IsLimitExhausted (reader (parserAt ((readerAt characterSetFile 192 [204])
                         \<lparr> codingSystem := Some (CodingSystem [''ISO_IR 100'']) \<rparr>)
              [groupLength 30, transferSyntax, characterSet ''ISO_IR 100''] None))"
  "readElement fileCollaborators
      ((readerAt characterSetFile 192 [204]) \<lparr> codingSystem := Some (CodingSystem [''ISO_IR 100'']) \<rparr>)
      (Some \<lparr> Elements = [groupLength 30, transferSyntax, characterSet ''ISO_IR 100''] \<rparr>) False
     = Inr (patientName,
            (readerAt characterSetFile 204 [204]) \<lparr> codingSystem := Some (CodingSystem [''ISO_IR 100'']) \<rparr>, [])"
  "parseElement fileCollaborators
      (parserAt ((readerAt characterSetFile 192 [204])
                         \<lparr> codingSystem := Some (CodingSystem [''ISO_IR 100'']) \<rparr>)
              [groupLength 30, transferSyntax, characterSet ''ISO_IR 100''] None)
     = Next (parserAt ((readerAt characterSetFile 204 [204])
                         \<lparr> codingSystem := Some (CodingSystem [''ISO_IR 100'']) \<rparr>)
              [groupLength 30, transferSyntax, characterSet ''ISO_IR 100'', patientName] None)"
  by (simp_all add: characterSetFile_def parser_simps reader_simps decoder_simps table_simps file_simps)

lemma select_unknownCharacterSetFile:
  "selectTransferSyntax fileCollaborators
     (parserAt (readerAt unknownCharacterSetFile 174 [204]) [groupLength 30, transferSyntax] None)
   = Inr (parserAt (readerAt unknownCharacterSetFile 174 [204]) [groupLength 30, transferSyntax] None)"
  by (simp add: parser_simps reader_simps table_simps file_simps)

lemma turns_unknownCharacterSetFile:
  "\<not> IsLimitExhausted (reader (parserAt (readerAt unknownCharacterSetFile 174 [204])
        [groupLength 30, transferSyntax] None))"
  "readElement fileCollaborators (readerAt unknownCharacterSetFile 174 [204])
      (Some \<lparr> Elements = [groupLength 30, transferSyntax] \<rparr>) False
     = Inr (patientName, readerAt unknownCharacterSetFile 186 [204], [])"
  "parseElement fileCollaborators
      (parserAt (readerAt unknownCharacterSetFile 174 [204]) [groupLength 30, transferSyntax] None)
     = Next (parserAt (readerAt unknownCharacterSetFile 186 [204])
              [groupLength 30, transferSyntax, patientName] None)"
  "\<not> IsLimitExhausted (reader (parserAt (readerAt unknownCharacterSetFile 186 [204])
        [groupLength 30, transferSyntax, patientName] None))"
  "readElement fileCollaborators (readerAt unknownCharacterSetFile 186 [204])
      (Some \<lparr> Elements = [groupLength 30, transferSyntax, patientName] \<rparr>) False
     = Inr (characterSet ''ISO_IR 999'', readerAt unknownCharacterSetFile 204 [204], [])"
  by (simp_all add: unknownCharacterSetFile_def parser_simps reader_simps decoder_simps table_simps file_simps)

lemma NewParser_minimalFileFixed:
  "NewParser fileCollaborators minimalFileFixed (Some 186) None []
     = Some (Inr (parserAt (readerAt minimalFileFixed 174 [186]) [groupLength 30, transferSyntax] None))"
  using header_minimalFileFixed
  by (simp add: NewParser_def fresh_reader applyOptions_def parserAt_def)

lemma Parse_minimalFileFixed:
  "Parse fileCollaborators
     (parserAt (readerAt minimalFileFixed 174 [186]) [groupLength 30, transferSyntax] None)
   = Some (Returns \<lparr> Elements = [groupLength 30, transferSyntax, patientName] \<rparr> None,
           parserAt (readerAt minimalFileFixed 186 [186])
             [groupLength 30, transferSyntax, patientName] None)"
  by (simp add: minimalFileFixed_def parser_simps reader_simps decoder_simps table_simps file_simps)

lemma NewParser_noTransferSyntaxFile:
  "NewParser fileCollaborators noTransferSyntaxFile (Some 156) None []
     = Some (Inr (parserAt (readerAt noTransferSyntaxFile 144 [156]) [groupLength 0] None))"
  by (simp add: noTransferSyntaxFile_def parser_simps reader_simps decoder_simps table_simps file_simps)

lemma select_noTransferSyntaxFile:
  "selectTransferSyntax fileCollaborators
     (parserAt (readerAt noTransferSyntaxFile 144 [156]) [groupLength 0] None)
   = Inr (parserAt (readerAt noTransferSyntaxFile 144 [156]) [groupLength 0] None)"
  by (simp add: parser_simps reader_simps table_simps file_simps)

lemma Parse_noTransferSyntaxFile:
  "Parse fileCollaborators
     (parserAt (readerAt noTransferSyntaxFile 144 [156]) [groupLength 0] None)
   = Some (Returns \<lparr> Elements = [groupLength 0, patientName] \<rparr> None,
           parserAt (readerAt noTransferSyntaxFile 156 [156]) [groupLength 0, patientName] None)"
  by (simp add: noTransferSyntaxFile_def parser_simps reader_simps decoder_simps table_simps file_simps)


lemma first_negativeGroupLengthFile:
  "readElement fileCollaborators (readerAt negativeGroupLengthFile 132 [174]) None False
     = Inr (negativeGroupLength, readerAt negativeGroupLengthFile 144 [174], [])"
  by (simp add: negativeGroupLengthFile_def reader_simps decoder_simps table_simps file_simps)

lemma header_negativeGroupLengthFile:
  "readHeader fileCollaborators (readerAt negativeGroupLengthFile 0 [174])
     = Some (Inr ([negativeGroupLength], readerAt negativeGroupLengthFile 144 [174]))"
  by (simp add: negativeGroupLengthFile_def parser_simps reader_simps decoder_simps table_simps file_simps)

lemma NewParser_characterSetOnlyFile:
  "NewParser fileCollaborators characterSetOnlyFile (Some 18) None [AssumeNoHeaderAndOffset]
     = Some (Inr (headerlessParser (readerAt characterSetOnlyFile 0 [18]) []))"
  by (simp add: NewParser_def NewReader_def applyOptions_def AssumeNoHeaderAndOffset_def
      headerlessParser_def readerAt_def)

lemma Parse_characterSetOnlyFile:
  "Parse fileCollaborators (headerlessParser (readerAt characterSetOnlyFile 0 [18]) [])
     = Some (Returns \<lparr> Elements = [] \<rparr> (Some ErrUnresolvableCharset),
             headerlessParser (readerAt characterSetOnlyFile 18 [18]) [])"
  by (simp add: characterSetOnlyFile_def parser_simps reader_simps decoder_simps table_simps file_simps)

lemma first_characterSetOnlyFile:
  "readElement fileCollaborators (readerAt characterSetOnlyFile 0 [18])
      (Some \<lparr> Elements = [] \<rparr>) False
     = Inr (characterSet ''ISO_IR 999'', readerAt characterSetOnlyFile 18 [18], [])"
  by (simp add: characterSetOnlyFile_def reader_simps decoder_simps table_simps file_simps)

lemma Parse_characterSetFile_end:
  "IsLimitExhausted (reader (parserAt ((readerAt characterSetFile 204 [204])
                         \<lparr> codingSystem := Some (CodingSystem [''ISO_IR 100'']) \<rparr>)
              [groupLength 30, transferSyntax, characterSet ''ISO_IR 100'', patientName] None))"
  "selectTransferSyntax fileCollaborators
      (parserAt (readerAt characterSetFile 174 [204]) [groupLength 30, transferSyntax] None)
     = Inr (parserAt (readerAt characterSetFile 174 [204]) [groupLength 30, transferSyntax] None)"
  by (simp_all add: parser_simps reader_simps table_simps file_simps)

subsection \<open>Selecting the transfer syntax\<close>

text \<open>
  C1 on a file whose meta group holds the group length element alone. The header is
  read; \<^verbatim>\<open>Parse\<close> finds no transfer syntax identifier and goes on, with the reader as
  it was, in explicit VR, little endian, and not in implicit VR: the patient name,
  written in explicit VR, is decoded.
\<close>

theorem missing_transfer_syntax_stays_explicit:
  "NewParser fileCollaborators noTransferSyntaxFile (Some 156) None []
     = Some (Inr (parserAt (readerAt noTransferSyntaxFile 144 [156]) [groupLength 0] None))
   \<and> FindElementByTag \<lparr> Elements = [groupLength 0] \<rparr> TransferSyntaxUID = Inl ErrElementNotFound
   \<and> selectTransferSyntax fileCollaborators
        (parserAt (readerAt noTransferSyntaxFile 144 [156]) [groupLength 0] None)
     = Inr (parserAt (readerAt noTransferSyntaxFile 144 [156]) [groupLength 0] None)
   \<and> isImplicit (reader (parserAt (readerAt noTransferSyntaxFile 144 [156]) [groupLength 0] None))
     = False
   \<and> byteOrder (reader (parserAt (readerAt noTransferSyntaxFile 144 [156]) [groupLength 0] None))
     = Some LittleEndian
   \<and> Parse fileCollaborators
        (parserAt (readerAt noTransferSyntaxFile 144 [156]) [groupLength 0] None)
     = Some (Returns \<lparr> Elements = [groupLength 0, patientName] \<rparr> None,
             parserAt (readerAt noTransferSyntaxFile 156 [156]) [groupLength 0, patientName] None)"
  by (simp add: NewParser_noTransferSyntaxFile select_noTransferSyntaxFile Parse_noTransferSyntaxFile)
    (simp add: FindElementByTag_def groupLength_def TransferSyntaxUID_def parserAt_def readerAt_def)

subsection \<open>Closing the frame channel\<close>

text \<open>
  C2 on a file whose last element is cut short, parsed with a frame channel. The
  header is read, \<^verbatim>\<open>Parse\<close> decodes the patient name, fails on the element after
  it and returns the error; the channel has then been closed zero times.
\<close>

theorem failed_parse_leaves_channel_open:
  "NewParser fileCollaborators truncatedBodyFile (Some 196) (Some openChannel) []
     = Some (Inr (parserAt (readerAt truncatedBodyFile 174 [196])
                    [groupLength 30, transferSyntax] (Some openChannel)))
   \<and> Parse fileCollaborators
       (parserAt (readerAt truncatedBodyFile 174 [196]) [groupLength 30, transferSyntax] (Some openChannel))
     = Some (Returns \<lparr> Elements = [] \<rparr> (Some ErrTruncated),
             parserAt (readerAt truncatedBodyFile 186 [196])
               [groupLength 30, transferSyntax, patientName] (Some openChannel))
   \<and> map_option closes (frameChannel (parserAt (readerAt truncatedBodyFile 186 [196])
               [groupLength 30, transferSyntax, patientName] (Some openChannel))) = Some 0"
  by (simp add: NewParser_truncatedBodyFile Parse_truncatedBodyFile)
    (simp add: parserAt_def openChannel_def)

text \<open>
  On the return without error the channel is closed once: \<^verbatim>\<open>Parse\<close> closes it after
  the loop and nowhere else.
\<close>

lemma clean_parse_closes_channel:
  assumes sel: "selectTransferSyntax env p = Inr p0"
    and ch: "frameChannel p = Some c"
    and ok: "Parse env p = Some (Returns d None, q)"
  shows "\<exists>c'. frameChannel q = Some c' \<and> closes c' = Suc (closes c)"
proof -
  from sel ok have "parseElements env p0 = Some (Returns d None, q)" by (simp add: Parse_def)
  from parseElements_clean [OF this] obtain body q0 where
    run: "decodes env p0 body q0" and fin: "finish q0 = (Returns d None, q)" by blast
  have "\<exists>c0. frameChannel q0 = Some c0 \<and> closes c0 = closes c" using run
  proof (induction rule: decodes.induct)
    case decodes_none
    from sel ch show ?case by (simp add: selectTransferSyntax_dataset)
  next
    case (decodes_turn body q elem rd fs q')
    then obtain c0 where "frameChannel q = Some c0" "closes c0 = closes c" by blast
    with decodes_turn.hyps(3,4) show ?case
      by (auto simp: parseElement_def Let_def send_def split: if_splits sum.splits)
  qed
  with fin show ?thesis by (auto simp: finish_def Let_def close_def)
qed

subsection \<open>The bytes of the meta group\<close>

text \<open>
  C3, as stated, fails. The group length element of \<open>negativeGroupLengthFile\<close> has
  VR \<open>SL\<close> and declares the length -1. \<^verbatim>\<open>readHeader\<close> accepts it, since it tests the
  variant of the value only, and parses the header with success; the reader ends
  where the group length element ends, so that 0 bytes were consumed after the
  element, not -1, and the transfer syntax element that follows is left unread.
\<close>

theorem negative_group_length_consumes_nothing:
  "readElement fileCollaborators (readerAt negativeGroupLengthFile 132 [174]) None False
     = Inr (negativeGroupLength, readerAt negativeGroupLengthFile 144 [174], [])
   \<and> GetInts (Value negativeGroupLength) = Inr [- 1]
   \<and> readHeader fileCollaborators (readerAt negativeGroupLengthFile 0 [174])
     = Some (Inr ([negativeGroupLength], readerAt negativeGroupLengthFile 144 [174]))
   \<and> bytesRead (readerAt negativeGroupLengthFile 144 [174])
     \<noteq> bytesRead (readerAt negativeGroupLengthFile 144 [174]) + (- 1)"
  by (simp add: first_negativeGroupLengthFile header_negativeGroupLengthFile)
    (simp add: negativeGroupLength_def)

text \<open>
  C3, amended. When the header is parsed with success and its group length element
  declares the integer \<open>L\<close>, the meta elements that follow this element take exactly
  \<open>L\<close> bytes when \<open>L\<close> is not negative, and no byte when it is negative: the
  reader ends \<open>max 0 L\<close> bytes after the group length element, and the limit that
  was pushed for them is popped. This holds for every decoder that reads through the
  reader.
\<close>

theorem readHeader_consumes_group_length:
  assumes rt: "readsThroughReader (readElement env)"
    and skip: "Skip 128 r = Inr r1"
    and magic: "ReadString 4 r1 = Inr (s, r2)"
    and first: "readElement env r2 None False = Inr (e, r3, fs)"
    and len: "GetInts (Value e) = Inr (L # others)"
    and ok: "readHeader env r = Some (Inr (elems, r'))"
  shows "bytesRead r' = bytesRead r3 + max 0 L \<and> limitStack r' = limitStack r3"
proof -
  from ok skip magic first len obtain r4 r5 where
    push: "PushLimit L r3 = Inr r4" and
    loop: "readMetaElems env r4 [e] = Some (Inr (elems, r5))" and
    pop: "r' = PopLimit r5"
    by (auto simp: readHeader_def split: if_splits sum.splits option.splits)
  show ?thesis
  proof (cases "0 \<le> L")
    case True
    from PushLimit_scoped [OF push True]
    have sc: "scoped (bytesRead r3 + L) (limitStack r3) r4" .
    from readMetaElems_scoped [OF loop, of "bytesRead r3 + L" "limitStack r3"] rt sc
    have "bytesRead r5 = bytesRead r3 + L \<and> limitStack r5 = (bytesRead r3 + L) # limitStack r3"
      by blast
    with pop True show ?thesis by (simp add: PopLimit_def)
  next
    case False
    then have neg: "L < 0" by simp
    from PushLimit_negative [OF push neg] have ex: "IsLimitExhausted r4"
      and at: "bytesRead r4 = bytesRead r3"
      and st: "limitStack r4 = (bytesRead r3 + L) # limitStack r3" by simp_all
    from readMetaElems_exhausted [OF ex, of env "[e]"] loop have "r5 = r4" by simp
    with pop at st neg show ?thesis by (simp add: PopLimit_def)
  qed
qed

theorem readHeader_consumes_group_length_witness:
  "readsThroughReader (readElement fileCollaborators)
   \<and> readHeader fileCollaborators (readerAt minimalFileFixed 0 [186])
       = Some (Inr ([groupLength 30, transferSyntax], readerAt minimalFileFixed 174 [186]))
   \<and> bytesRead (readerAt minimalFileFixed 174 [186])
       = bytesRead (readerAt minimalFileFixed 144 [186]) + 30
   \<and> limitStack (readerAt minimalFileFixed 174 [186])
       = limitStack (readerAt minimalFileFixed 144 [186])"
proof -
  have rt: "readsThroughReader (readElement fileCollaborators)"
    by (simp add: fileCollaborators_def readsThroughReader_primitive)
  have len: "GetInts (Value (groupLength 30)) = Inr (30 # [])"
    by (simp add: groupLength_def)
  from readHeader_consumes_group_length [OF rt first_minimalFileFixed len header_minimalFileFixed]
  show ?thesis using rt header_minimalFileFixed by simp
qed

subsection \<open>The magic word\<close>

text \<open>
  C4. When the input has a preamble of 128 bytes within the bytes to read and the 4
  bytes that follow it are not \<open>DICM\<close>, parsing the header fails with the magic word
  error: \<^verbatim>\<open>NewParser\<close> returns this error and no parser, hence no data set.
\<close>

theorem bad_magic_word:
  assumes pre: "128 \<le> length inp"
    and bad: "take 4 (drop 128 inp) \<noteq> magicWord"
    and lim: "\<forall>k. bytesToRead = Some k \<longrightarrow> 128 \<le> k"
    and hdr: "\<not> assumeNoHeaderAndOffset (applyOptions os)"
  shows "NewParser env inp bytesToRead fc os = Some (Inl ErrorMagicWord)"
proof -
  define r0 where "r0 = \<lparr> source = inp, bytesRead = 0, byteOrder = Some LittleEndian,
    isImplicit = False, codingSystem = None,
    limitStack = (case bytesToRead of None \<Rightarrow> [] | Some n \<Rightarrow> [int n]) \<rparr>"
  define r1 where "r1 = r0\<lparr> source := drop 128 inp, bytesRead := 128 \<rparr>"
  have new: "NewReader inp LittleEndian bytesToRead = Inr r0"
    by (simp add: NewReader_def r0_def)
  have skip: "Skip 128 r0 = Inr r1"
    using pre lim by (cases bytesToRead) (simp_all add: Skip_def Read_def withinLimits_def r0_def r1_def)
  have magic: "ReadString 4 r1 = Inl ErrTruncated
      \<or> (\<exists>r2. ReadString 4 r1 = Inr (take 4 (drop 128 inp), r2))"
    by (simp add: ReadString_def Read_def r1_def)
  have "readHeader env r0 = Some (Inl ErrorMagicWord)"
    using skip magic bad by (auto simp: readHeader_def)
  with new hdr show ?thesis by (simp add: NewParser_def)
qed

theorem bad_magic_word_witness:
  "128 \<le> length badMagicFile \<and> take 4 (drop 128 badMagicFile) \<noteq> magicWord
   \<and> \<not> assumeNoHeaderAndOffset (applyOptions [])
   \<and> NewParser fileCollaborators badMagicFile (Some 132) None [] = Some (Inl ErrorMagicWord)"
proof -
  have a: "128 \<le> length badMagicFile" by (simp add: badMagicFile_def preamble_def)
  have b: "take 4 (drop 128 badMagicFile) \<noteq> magicWord"
    by (simp add: badMagicFile_def preamble_def magicWord_def)
  have c: "\<forall>k. Some (132::nat) = Some k \<longrightarrow> 128 \<le> k" by simp
  have d: "\<not> assumeNoHeaderAndOffset (applyOptions [])" by (simp add: applyOptions_def)
  from bad_magic_word [OF a b c d] a b d show ?thesis by simp
qed

subsection \<open>The group length element\<close>

text \<open>
  C5, as stated, fails. The first element of \<open>signedGroupLengthFile\<close> has the group
  length tag with VR \<open>SL\<close>, a signed integer, not \<open>UL\<close>; the header is parsed with
  success, since \<^verbatim>\<open>readHeader\<close> tests the variant of the value, which is the
  integer list for \<open>SL\<close> as for \<open>UL\<close>.
\<close>

theorem group_length_other_vr_accepted:
  "readElement fileCollaborators (readerAt signedGroupLengthFile 132 [144]) None False
     = Inr (Elem (DicomTag 0x0002 0x0000) ''SL'' 4 (IntsValue [0]),
            readerAt signedGroupLengthFile 144 [144], [])
   \<and> NewParser fileCollaborators signedGroupLengthFile (Some 144) None []
     = Some (Inr (parserAt (readerAt signedGroupLengthFile 144 [144])
                    [Elem (DicomTag 0x0002 0x0000) ''SL'' 4 (IntsValue [0])] None))
   \<and> NewParser fileCollaborators signedGroupLengthFile (Some 144) None []
     \<noteq> Some (Inl ErrorMetaElementGroupLength)"
  by (simp add: NewParser_signedGroupLengthFile first_signedGroupLengthFile)

text \<open>
  C5, amended. When the first element after the magic word is decoded and either
  does not have the group length tag or does not hold a list of integers, parsing
  the header fails with the error of the missing group length. When that element
  cannot be decoded, the error of the decoder is returned.
\<close>

theorem first_element_not_group_length:
  assumes skip: "Skip 128 r = Inr r1"
    and magic: "ReadString 4 r1 = Inr (magicWord, r2)"
  shows "(readElement env r2 None False = Inr (e, r3, fs)
           \<longrightarrow> Tag e \<noteq> FileMetaInformationGroupLength \<or> ValueType (Value e) \<noteq> Ints
           \<longrightarrow> readHeader env r = Some (Inl ErrorMetaElementGroupLength))
       \<and> (readElement env r2 None False = Inl err \<longrightarrow> readHeader env r = Some (Inl err))"
  using skip magic by (auto simp: readHeader_def)

theorem first_element_not_group_length_witness:
  "Skip 128 (readerAt noGroupLengthFile 0 [162]) = Inr (readerAt noGroupLengthFile 128 [162])
   \<and> ReadString 4 (readerAt noGroupLengthFile 128 [162])
       = Inr (magicWord, readerAt noGroupLengthFile 132 [162])
   \<and> readElement fileCollaborators (readerAt noGroupLengthFile 132 [162]) None False
       = Inr (transferSyntax, readerAt noGroupLengthFile 162 [162], [])
   \<and> Tag transferSyntax \<noteq> FileMetaInformationGroupLength
   \<and> readHeader fileCollaborators (readerAt noGroupLengthFile 0 [162])
       = Some (Inl ErrorMetaElementGroupLength)"
proof -
  have t: "Tag transferSyntax \<noteq> FileMetaInformationGroupLength"
    by (simp add: transferSyntax_def FileMetaInformationGroupLength_def)
  from first_element_not_group_length [OF first_noGroupLengthFile(1,2),
      of fileCollaborators transferSyntax "readerAt noGroupLengthFile 162 [162]" "[]"]
    first_noGroupLengthFile t
  show ?thesis by simp
qed

subsection \<open>A failure of the decoder in the body\<close>

text \<open>
  A decoder that panics on an element of the body makes \<^verbatim>\<open>Parse\<close> panic.
\<close>

lemma body_panic_unwinds:
  assumes sel: "selectTransferSyntax env p = Inr p0"
    and run: "decodes env p0 body q"
    and more: "\<not> IsLimitExhausted (reader q)"
    and panics: "readElement env (reader q) (Some (dataset q)) (frameChannel q \<noteq> None) = Inl GoPanic"
  shows "Parse env p = Some (Panics, q)"
proof -
  have "Parse env p = parseElements env p0" using sel by (simp add: Parse_def)
  also have "\<dots> = parseElements env q" using run by (rule decodes_same_loop)
  also have "\<dots> = Some (Panics, q)"
    using more panics by (subst parseElements.simps) (simp add: parseElement_def)
  finally show ?thesis .
qed

text \<open>
  C6. When the decoder fails on an element of the body, that is, returns an error,
  \<^verbatim>\<open>Parse\<close> stops there and returns the empty data set with the error of the
  decoder, whatever it had accumulated.
\<close>

theorem body_failure_discards_dataset:
  assumes sel: "selectTransferSyntax env p = Inr p0"
    and run: "decodes env p0 body q"
    and more: "\<not> IsLimitExhausted (reader q)"
    and fails: "readElement env (reader q) (Some (dataset q)) (frameChannel q \<noteq> None) = Inl err"
    and returned: "err \<noteq> GoPanic"
  shows "Parse env p = Some (Returns \<lparr> Elements = [] \<rparr> (Some err), q)"
proof -
  have "Parse env p = parseElements env p0" using sel by (simp add: Parse_def)
  also have "\<dots> = parseElements env q" using run by (rule decodes_same_loop)
  also have "\<dots> = Some (Returns \<lparr> Elements = [] \<rparr> (Some err), q)"
    using more fails returned by (subst parseElements.simps) (simp add: parseElement_def)
  finally show ?thesis .
qed

theorem body_failure_discards_dataset_witness:
  "selectTransferSyntax fileCollaborators
     (parserAt (readerAt truncatedBodyFile 174 [196]) [groupLength 30, transferSyntax] (Some openChannel))
     = Inr (parserAt (readerAt truncatedBodyFile 174 [196]) [groupLength 30, transferSyntax] (Some openChannel))
   \<and> decodes fileCollaborators
       (parserAt (readerAt truncatedBodyFile 174 [196]) [groupLength 30, transferSyntax] (Some openChannel))
       [patientName]
       (parserAt (readerAt truncatedBodyFile 186 [196]) [groupLength 30, transferSyntax, patientName] (Some openChannel))
   \<and> Parse fileCollaborators
       (parserAt (readerAt truncatedBodyFile 174 [196]) [groupLength 30, transferSyntax] (Some openChannel))
     = Some (Returns \<lparr> Elements = [] \<rparr> (Some ErrTruncated),
             parserAt (readerAt truncatedBodyFile 186 [196]) [groupLength 30, transferSyntax, patientName] (Some openChannel))"
proof -
  let ?p = "parserAt (readerAt truncatedBodyFile 174 [196]) [groupLength 30, transferSyntax] (Some openChannel)"
  let ?q = "parserAt (readerAt truncatedBodyFile 186 [196]) [groupLength 30, transferSyntax, patientName] (Some openChannel)"
  have re: "readElement fileCollaborators (reader ?p) (Some (dataset ?p)) (frameChannel ?p \<noteq> None)
      = Inr (patientName, readerAt truncatedBodyFile 186 [196], [])"
    using turn_truncatedBodyFile(2) by (simp add: parserAt_def)
  have "decodes fileCollaborators ?p ([] @ [patientName]) ?q"
    using decodes_none turn_truncatedBodyFile(1) re turn_truncatedBodyFile(3)
    by (rule decodes_turn)
  then have run: "decodes fileCollaborators ?p [patientName] ?q" by simp
  have fails: "readElement fileCollaborators (reader ?q) (Some (dataset ?q)) (frameChannel ?q \<noteq> None)
      = Inl ErrTruncated"
    using fail_truncatedBodyFile(2) by (simp add: parserAt_def)
  have returned: "ErrTruncated \<noteq> GoPanic" by simp
  from body_failure_discards_dataset
    [OF select_truncatedBodyFile run fail_truncatedBodyFile(1) fails returned]
    select_truncatedBodyFile run
  show ?thesis by simp
qed

subsection \<open>The character set\<close>

text \<open>
  C7. When a turn of the loop of \<^verbatim>\<open>Parse\<close> decodes an element with the tag
  SpecificCharacterSet and its names resolve to a decoder, \<^verbatim>\<open>Parse\<close> goes on as the
  loop started in a state whose reader has that decoder installed: what \<^verbatim>\<open>Parse\<close>
  does from there on, it does with that reader. The same holds in every later turn
  up to the next element with this tag, the element decoder leaving the reader's
  character set alone: \<^verbatim>\<open>Parse\<close> decodes the element of that turn from a reader
  with the decoder installed.
\<close>

theorem character_set_installed:
  assumes sel: "selectTransferSyntax env p = Inr p0"
    and run: "decodes env p0 before q"
    and more: "\<not> IsLimitExhausted (reader q)"
    and decoded: "readElement env (reader q) (Some (dataset q)) (frameChannel q \<noteq> None) = Inr (elem, rd, fs)"
    and scs: "Tag elem = SpecificCharacterSet"
    and names: "MustGetStrings (Value elem) = Inr names"
    and resolved: "ParseSpecificCharacterSet env names = Inr c"
    and keeps: "keepsCodingSystem (readElement env)"
  shows "\<exists>q'. parseElement env q = Next q' \<and> reader q' = SetCodingSystem c rd
           \<and> Parse env p = parseElements env q'
           \<and> (\<forall>body q''. decodes env q' body q'' \<and> (\<forall>e\<in>set body. Tag e \<noteq> SpecificCharacterSet)
                 \<longrightarrow> codingSystem (reader q'') = Some c
                   \<and> Parse env p = parseElements env q''
                   \<and> (\<not> IsLimitExhausted (reader q'')
                        \<longrightarrow> Parse env p =
                            (case parseElement env q'' of
                               Leave res p' \<Rightarrow> Some (res, p')
                             | Next p' \<Rightarrow> parseElements env p')))"
proof -
  define q' where "q' = q\<lparr> reader := SetCodingSystem c rd,
      frameChannel := send fs (frameChannel q),
      dataset := \<lparr> Elements = Elements (dataset q) @ [elem] \<rparr> \<rparr>"
  have step: "parseElement env q = Next q'"
    using decoded scs names resolved by (simp add: parseElement_def Let_def q'_def)
  have next_turn: "decodes env p0 (before @ [elem]) q'"
    using run more decoded step by (rule decodes_turn)
  have inst: "reader q' = SetCodingSystem c rd" by (simp add: q'_def)
  have start: "Parse env p = parseElements env p0" using sel by (simp add: Parse_def)
  with decodes_same_loop [OF next_turn] have here: "Parse env p = parseElements env q'" by simp
  have "codingSystem (reader q'') = Some c
      \<and> Parse env p = parseElements env q''
      \<and> (\<not> IsLimitExhausted (reader q'')
           \<longrightarrow> Parse env p =
               (case parseElement env q'' of
                  Leave res p' \<Rightarrow> Some (res, p')
                | Next p' \<Rightarrow> parseElements env p'))"
    if later: "decodes env q' body q''" and plain: "\<forall>e\<in>set body. Tag e \<noteq> SpecificCharacterSet"
    for body q''
  proof -
    have cs: "codingSystem (reader q'') = Some c"
      using decodes_codingSystem [OF keeps later plain] inst by (simp add: SetCodingSystem_def)
    have there: "Parse env p = parseElements env q''"
      using here decodes_same_loop [OF later] by simp
    have "parseElements env q'' =
        (case parseElement env q'' of
           Leave res p' \<Rightarrow> Some (res, p')
         | Next p' \<Rightarrow> parseElements env p')"
      if "\<not> IsLimitExhausted (reader q'')"
      using that by (subst parseElements.simps) simp
    with cs there show ?thesis by simp
  qed
  with step inst here show ?thesis by blast
qed

theorem character_set_installed_witness:
  "readElement fileCollaborators (readerAt characterSetFile 174 [204])
      (Some \<lparr> Elements = [groupLength 30, transferSyntax] \<rparr>) False
     = Inr (characterSet ''ISO_IR 100'', readerAt characterSetFile 192 [204], [])
   \<and> Tag (characterSet ''ISO_IR 100'') = SpecificCharacterSet
   \<and> ParseSpecificCharacterSet fileCollaborators [''ISO_IR 100''] = Inr (CodingSystem [''ISO_IR 100''])
   \<and> keepsCodingSystem (readElement fileCollaborators)
   \<and> decodes fileCollaborators
       (parserAt ((readerAt characterSetFile 192 [204])
                    \<lparr> codingSystem := Some (CodingSystem [''ISO_IR 100'']) \<rparr>)
          [groupLength 30, transferSyntax, characterSet ''ISO_IR 100''] None)
       [patientName]
       (parserAt ((readerAt characterSetFile 204 [204])
                    \<lparr> codingSystem := Some (CodingSystem [''ISO_IR 100'']) \<rparr>)
          [groupLength 30, transferSyntax, characterSet ''ISO_IR 100'', patientName] None)
   \<and> Tag patientName \<noteq> SpecificCharacterSet
   \<and> codingSystem (reader (parserAt ((readerAt characterSetFile 204 [204])
                    \<lparr> codingSystem := Some (CodingSystem [''ISO_IR 100'']) \<rparr>)
          [groupLength 30, transferSyntax, characterSet ''ISO_IR 100'', patientName] None))
       = Some (CodingSystem [''ISO_IR 100''])
   \<and> Parse fileCollaborators
       (parserAt (readerAt characterSetFile 174 [204]) [groupLength 30, transferSyntax] None)
       = Some (Returns \<lparr> Elements = [groupLength 30, transferSyntax,
                                      characterSet ''ISO_IR 100'', patientName] \<rparr> None,
               parserAt ((readerAt characterSetFile 204 [204])
                    \<lparr> codingSystem := Some (CodingSystem [''ISO_IR 100'']) \<rparr>)
          [groupLength 30, transferSyntax, characterSet ''ISO_IR 100'', patientName] None)"
proof -
  let ?q = "parserAt (readerAt characterSetFile 174 [204]) [groupLength 30, transferSyntax] None"
  let ?q1 = "parserAt ((readerAt characterSetFile 192 [204])
                    \<lparr> codingSystem := Some (CodingSystem [''ISO_IR 100'']) \<rparr>)
          [groupLength 30, transferSyntax, characterSet ''ISO_IR 100''] None"
  let ?q2 = "parserAt ((readerAt characterSetFile 204 [204])
                    \<lparr> codingSystem := Some (CodingSystem [''ISO_IR 100'']) \<rparr>)
          [groupLength 30, transferSyntax, characterSet ''ISO_IR 100'', patientName] None"
  have decoded: "readElement fileCollaborators (reader ?q) (Some (dataset ?q)) (frameChannel ?q \<noteq> None)
      = Inr (characterSet ''ISO_IR 100'', readerAt characterSetFile 192 [204], [])"
    using turns_characterSetFile(1) by (simp add: parserAt_def)
  have scs: "Tag (characterSet ''ISO_IR 100'') = SpecificCharacterSet"
    by (simp add: characterSet_def SpecificCharacterSet_def)
  have names: "MustGetStrings (Value (characterSet ''ISO_IR 100'')) = Inr [''ISO_IR 100'']"
    by (simp add: characterSet_def)
  have resolved: "ParseSpecificCharacterSet fileCollaborators [''ISO_IR 100'']
      = Inr (CodingSystem [''ISO_IR 100''])"
    by (simp add: fileCollaborators_def registryCharacterSet_def)
  have keeps: "keepsCodingSystem (readElement fileCollaborators)"
    by (simp add: fileCollaborators_def keepsCodingSystem_primitive)
  have re: "readElement fileCollaborators (reader ?q1) (Some (dataset ?q1)) (frameChannel ?q1 \<noteq> None)
      = Inr (patientName, (readerAt characterSetFile 204 [204])
               \<lparr> codingSystem := Some (CodingSystem [''ISO_IR 100'']) \<rparr>, [])"
    using turns_characterSetFile(4) by (simp add: parserAt_def)
  have "decodes fileCollaborators ?q1 ([] @ [patientName]) ?q2"
    using decodes_none turns_characterSetFile(3) re turns_characterSetFile(5)
    by (rule decodes_turn)
  then have later: "decodes fileCollaborators ?q1 [patientName] ?q2" by simp
  have plain: "Tag patientName \<noteq> SpecificCharacterSet"
    by (simp add: patientName_def SpecificCharacterSet_def)
  have more: "\<not> IsLimitExhausted (reader ?q)"
    by (simp add: parserAt_def readerAt_def IsLimitExhausted_def)
  from character_set_installed
    [OF Parse_characterSetFile_end(2) decodes_none more decoded scs names resolved keeps]
  obtain q' where
    step: "parseElement fileCollaborators ?q = Next q'" and
    all: "\<forall>body q''. decodes fileCollaborators q' body q''
            \<and> (\<forall>e\<in>set body. Tag e \<noteq> SpecificCharacterSet)
          \<longrightarrow> codingSystem (reader q'') = Some (CodingSystem [''ISO_IR 100''])
            \<and> Parse fileCollaborators ?q = parseElements fileCollaborators q''"
    by blast
  from step turns_characterSetFile(2) have same: "q' = ?q1" by simp
  from all have "decodes fileCollaborators q' [patientName] ?q2
        \<and> (\<forall>e\<in>set [patientName]. Tag e \<noteq> SpecificCharacterSet)
      \<longrightarrow> codingSystem (reader ?q2) = Some (CodingSystem [''ISO_IR 100''])
        \<and> Parse fileCollaborators ?q = parseElements fileCollaborators ?q2"
    by blast
  with same later plain have cs: "codingSystem (reader ?q2) = Some (CodingSystem [''ISO_IR 100''])"
    and rest: "Parse fileCollaborators ?q = parseElements fileCollaborators ?q2"
    by simp_all
  have "parseElements fileCollaborators ?q2 = Some (finish ?q2)"
    using Parse_characterSetFile_end(1) by (subst parseElements.simps) simp
  with rest have "Parse fileCollaborators ?q
      = Some (Returns \<lparr> Elements = [groupLength 30, transferSyntax,
                                     characterSet ''ISO_IR 100'', patientName] \<rparr> None, ?q2)"
    by (simp add: finish_def Let_def parserAt_def)
  with cs turns_characterSetFile(1) scs resolved keeps later plain show ?thesis by simp
qed

subsection \<open>The order of the elements\<close>

text \<open>
  C8, as stated, fails on the scenario. The file of the scenario declares a group
  length of 20 and then holds a transfer syntax element of 30 bytes (28 when the
  value is the printed string alone): the value crosses the limit pushed for the
  meta group, the header cannot be read, and no data set is returned.
\<close>

theorem minimal_scenario_is_truncated:
  "NewParser fileCollaborators minimalFile (Some 186) None [] = Some (Inl ErrTruncated)
   \<and> NewParser fileCollaborators minimalFileShort (Some 184) None [] = Some (Inl ErrTruncated)"
  by (simp add: minimalFile_def minimalFileShort_def parser_simps reader_simps decoder_simps
      table_simps file_simps)

text \<open>
  C8, amended. When a header is read and \<^verbatim>\<open>Parse\<close> returns without error, the data
  set returned is made of three parts in this order: the group length element, which
  is the first element decoded after the magic word; the elements that the turns of
  the loop of \<^verbatim>\<open>readHeader\<close> decoded one after the other inside the limit pushed
  for the meta group, all of them, up to the exhaustion of that limit; the elements
  that the turns of the loop of \<^verbatim>\<open>Parse\<close> decoded one after the other, all of
  them, up to the exhaustion of the limit. On the file of the scenario with the
  group length set to the 30 bytes that follow it, the data set returned has exactly
  the three elements.
\<close>

theorem header_elements_then_body:
  "(\<not> assumeNoHeaderAndOffset (applyOptions os)
      \<longrightarrow> NewParser env inp n fc os = Some (Inr p)
      \<longrightarrow> Parse env p = Some (Returns d None, q)
      \<longrightarrow> (\<exists>r0 r1 r2 g r3 fs L others r4 meta r5 p0 body q0.
             NewReader inp LittleEndian n = Inr r0
           \<and> Skip 128 r0 = Inr r1 \<and> ReadString 4 r1 = Inr (magicWord, r2)
           \<and> readElement env r2 None False = Inr (g, r3, fs)
           \<and> Tag g = FileMetaInformationGroupLength
           \<and> GetInts (Value g) = Inr (L # others) \<and> PushLimit L r3 = Inr r4
           \<and> metaDecodes env r4 meta r5 \<and> IsLimitExhausted r5
           \<and> reader p = PopLimit r5
           \<and> Elements (dataset p) = g # meta
           \<and> selectTransferSyntax env p = Inr p0
           \<and> decodes env p0 body q0 \<and> IsLimitExhausted (reader q0)
           \<and> Elements d = (g # meta) @ body))
   \<and> NewParser fileCollaborators minimalFileFixed (Some 186) None []
       = Some (Inr (parserAt (readerAt minimalFileFixed 174 [186]) [groupLength 30, transferSyntax] None))
   \<and> Parse fileCollaborators
       (parserAt (readerAt minimalFileFixed 174 [186]) [groupLength 30, transferSyntax] None)
       = Some (Returns \<lparr> Elements = [groupLength 30, transferSyntax, patientName] \<rparr> None,
               parserAt (readerAt minimalFileFixed 186 [186])
                 [groupLength 30, transferSyntax, patientName] None)
   \<and> length [groupLength 30, transferSyntax, patientName] = 3"
proof -
  have general: "\<exists>r0 r1 r2 g r3 fs L others r4 meta r5 p0 body q0.
             NewReader inp LittleEndian n = Inr r0
           \<and> Skip 128 r0 = Inr r1 \<and> ReadString 4 r1 = Inr (magicWord, r2)
           \<and> readElement env r2 None False = Inr (g, r3, fs)
           \<and> Tag g = FileMetaInformationGroupLength
           \<and> GetInts (Value g) = Inr (L # others) \<and> PushLimit L r3 = Inr r4
           \<and> metaDecodes env r4 meta r5 \<and> IsLimitExhausted r5
           \<and> reader p = PopLimit r5
           \<and> Elements (dataset p) = g # meta
           \<and> selectTransferSyntax env p = Inr p0
           \<and> decodes env p0 body q0 \<and> IsLimitExhausted (reader q0)
           \<and> Elements d = (g # meta) @ body"
    if hdr: "\<not> assumeNoHeaderAndOffset (applyOptions os)"
      and new: "NewParser env inp n fc os = Some (Inr p)"
      and ok: "Parse env p = Some (Returns d None, q)"
  proof -
    from new hdr obtain r0 elems rd where
      fresh: "NewReader inp LittleEndian n = Inr r0" and
      rh: "readHeader env r0 = Some (Inr (elems, rd))" and ds: "Elements (dataset p) = elems"
      and rp: "reader p = rd"
      by (auto simp: NewParser_def Let_def split: sum.splits option.splits)
    from readHeader_success [OF rh] obtain r1 r2 g r3 fs L others r4 r5 where
      skip: "Skip 128 r0 = Inr r1" and magic: "ReadString 4 r1 = Inr (magicWord, r2)" and
      first: "readElement env r2 None False = Inr (g, r3, fs)" and
      tg: "Tag g = FileMetaInformationGroupLength" and
      len: "GetInts (Value g) = Inr (L # others)" and push: "PushLimit L r3 = Inr r4" and
      loop: "readMetaElems env r4 [g] = Some (Inr (elems, r5))" and pop: "rd = PopLimit r5"
      by blast
    from readMetaElems_trace [OF loop] obtain meta where
      el: "elems = [g] @ meta" and tr: "metaDecodes env r4 meta r5"
      and ex5: "IsLimitExhausted r5" by blast
    from el ds have block: "Elements (dataset p) = g # meta" by simp
    from ok obtain p0 where sel: "selectTransferSyntax env p = Inr p0"
      and run: "parseElements env p0 = Some (Returns d None, q)"
      by (cases "selectTransferSyntax env p") (auto simp: Parse_def)
    from parseElements_clean [OF run] obtain body q0 where
      dec: "decodes env p0 body q0" and ex: "IsLimitExhausted (reader q0)"
      and fin: "finish q0 = (Returns d None, q)" by blast
    from fin have "d = dataset q0" by (simp add: finish_def Let_def)
    with decodes_dataset [OF dec] selectTransferSyntax_dataset [OF sel] block
    have all: "Elements d = (g # meta) @ body" by simp
    from fresh skip magic first tg len push tr ex5 rp pop block sel dec ex all
    show ?thesis by blast
  qed
  with NewParser_minimalFileFixed Parse_minimalFileFixed show ?thesis by simp
qed

theorem header_elements_then_body_witness:
  "\<not> assumeNoHeaderAndOffset (applyOptions [])
   \<and> NewParser fileCollaborators minimalFileFixed (Some 186) None []
       = Some (Inr (parserAt (readerAt minimalFileFixed 174 [186]) [groupLength 30, transferSyntax] None))
   \<and> Parse fileCollaborators
       (parserAt (readerAt minimalFileFixed 174 [186]) [groupLength 30, transferSyntax] None)
       = Some (Returns \<lparr> Elements = [groupLength 30, transferSyntax, patientName] \<rparr> None,
               parserAt (readerAt minimalFileFixed 186 [186])
                 [groupLength 30, transferSyntax, patientName] None)
   \<and> (\<exists>r4 meta r5 p0 body q0.
         PushLimit 30 (readerAt minimalFileFixed 144 [186]) = Inr r4
       \<and> metaDecodes fileCollaborators r4 meta r5
       \<and> [groupLength 30, transferSyntax] = groupLength 30 # meta
       \<and> decodes fileCollaborators p0 body q0
       \<and> [groupLength 30, transferSyntax, patientName] = (groupLength 30 # meta) @ body)"
proof -
  let ?p = "parserAt (readerAt minimalFileFixed 174 [186]) [groupLength 30, transferSyntax] None"
  have hdr: "\<not> assumeNoHeaderAndOffset (applyOptions [])" by (simp add: applyOptions_def)
  from header_elements_then_body [of "[]" fileCollaborators minimalFileFixed "Some 186" None ?p
      "\<lparr> Elements = [groupLength 30, transferSyntax, patientName] \<rparr>"
      "parserAt (readerAt minimalFileFixed 186 [186]) [groupLength 30, transferSyntax, patientName] None"]
    hdr
  obtain r0 r1 r2 g r3 fs L others r4 meta r5 p0 body q0 where
    fresh: "NewReader minimalFileFixed LittleEndian (Some 186) = Inr r0" and
    skip: "Skip 128 r0 = Inr r1" and magic: "ReadString 4 r1 = Inr (magicWord, r2)" and
    first: "readElement fileCollaborators r2 None False = Inr (g, r3, fs)" and
    len: "GetInts (Value g) = Inr (L # others)" and push: "PushLimit L r3 = Inr r4" and
    tr: "metaDecodes fileCollaborators r4 meta r5" and
    block: "Elements (dataset ?p) = g # meta" and
    dec: "decodes fileCollaborators p0 body q0" and
    all: "[groupLength 30, transferSyntax, patientName] = (g # meta) @ body"
    by auto
  from fresh have "r0 = readerAt minimalFileFixed 0 [186]"
    using fresh_reader [of minimalFileFixed 186] by simp
  with skip magic first first_minimalFileFixed
  have g: "g = groupLength 30" and r3: "r3 = readerAt minimalFileFixed 144 [186]" by simp_all
  with len have "L = 30" by (simp add: groupLength_def)
  with push r3 have push': "PushLimit 30 (readerAt minimalFileFixed 144 [186]) = Inr r4" by simp
  from block g have "[groupLength 30, transferSyntax] = groupLength 30 # meta"
    by (simp add: parserAt_def)
  with push' tr dec all g hdr NewParser_minimalFileFixed Parse_minimalFileFixed
  show ?thesis by blast
qed

subsection \<open>A character set that does not resolve\<close>

text \<open>
  C9, as stated, fails. \<open>characterSetOnlyFile\<close> is parsed with the option that
  assumes no header and holds one element, with the tag SpecificCharacterSet and a
  name that does not resolve. The element is decoded, and \<^verbatim>\<open>Parse\<close> returns the
  error of the registry with the data set accumulated so far, which is the empty
  data set.
\<close>

theorem unresolved_character_set_first_returns_empty:
  "NewParser fileCollaborators characterSetOnlyFile (Some 18) None [AssumeNoHeaderAndOffset]
     = Some (Inr (headerlessParser (readerAt characterSetOnlyFile 0 [18]) []))
   \<and> readElement fileCollaborators (readerAt characterSetOnlyFile 0 [18])
        (Some \<lparr> Elements = [] \<rparr>) False
     = Inr (characterSet ''ISO_IR 999'', readerAt characterSetOnlyFile 18 [18], [])
   \<and> Parse fileCollaborators (headerlessParser (readerAt characterSetOnlyFile 0 [18]) [])
     = Some (Returns \<lparr> Elements = [] \<rparr> (Some ErrUnresolvableCharset),
             headerlessParser (readerAt characterSetOnlyFile 18 [18]) [])"
  by (simp add: NewParser_characterSetOnlyFile first_characterSetOnlyFile
      Parse_characterSetOnlyFile)

text \<open>
  C9, amended. When an element with the tag SpecificCharacterSet is decoded and its
  names do not resolve to a decoder, \<^verbatim>\<open>Parse\<close> returns the error of the registry
  together with the data set accumulated before this element: the elements the
  parser started with, followed by the elements decoded in the earlier turns. The
  element itself is not appended. The data set returned is empty exactly when no
  header had been read and no element had been decoded before.
\<close>

theorem unresolved_character_set_keeps_dataset:
  assumes sel: "selectTransferSyntax env p = Inr p0"
    and run: "decodes env p0 body q"
    and more: "\<not> IsLimitExhausted (reader q)"
    and decoded: "readElement env (reader q) (Some (dataset q)) (frameChannel q \<noteq> None) = Inr (elem, rd, fs)"
    and scs: "Tag elem = SpecificCharacterSet"
    and names: "MustGetStrings (Value elem) = Inr names"
    and unresolved: "ParseSpecificCharacterSet env names = Inl err"
    and returned: "err \<noteq> GoPanic"
  shows "Parse env p = Some (Returns (dataset q) (Some err),
                             q\<lparr> reader := rd, frameChannel := send fs (frameChannel q) \<rparr>)
       \<and> Elements (dataset q) = Elements (dataset p) @ body
       \<and> (Elements (dataset p) \<noteq> [] \<longrightarrow> Elements (dataset q) \<noteq> [])
       \<and> (Elements (dataset q) = [] \<longleftrightarrow> Elements (dataset p) = [] \<and> body = [])"
proof -
  have "Parse env p = parseElements env p0" using sel by (simp add: Parse_def)
  also have "\<dots> = parseElements env q" using run by (rule decodes_same_loop)
  also have "\<dots> = Some (Returns (dataset q) (Some err),
                          q\<lparr> reader := rd, frameChannel := send fs (frameChannel q) \<rparr>)"
    using more decoded scs names unresolved returned
    by (subst parseElements.simps) (simp add: parseElement_def Let_def)
  finally have ret: "Parse env p = Some (Returns (dataset q) (Some err),
                          q\<lparr> reader := rd, frameChannel := send fs (frameChannel q) \<rparr>)" .
  from decodes_dataset [OF run] selectTransferSyntax_dataset [OF sel]
  have acc: "Elements (dataset q) = Elements (dataset p) @ body" by simp
  from ret acc show ?thesis by simp
qed

theorem unresolved_character_set_keeps_dataset_witness:
  "decodes fileCollaborators
     (parserAt (readerAt unknownCharacterSetFile 174 [204]) [groupLength 30, transferSyntax] None)
     [patientName]
     (parserAt (readerAt unknownCharacterSetFile 186 [204]) [groupLength 30, transferSyntax, patientName] None)
   \<and> readElement fileCollaborators (readerAt unknownCharacterSetFile 186 [204])
        (Some \<lparr> Elements = [groupLength 30, transferSyntax, patientName] \<rparr>) False
       = Inr (characterSet ''ISO_IR 999'', readerAt unknownCharacterSetFile 204 [204], [])
   \<and> Tag (characterSet ''ISO_IR 999'') = SpecificCharacterSet
   \<and> ParseSpecificCharacterSet fileCollaborators [''ISO_IR 999''] = Inl ErrUnresolvableCharset
   \<and> Parse fileCollaborators
        (parserAt (readerAt unknownCharacterSetFile 174 [204]) [groupLength 30, transferSyntax] None)
       = Some (Returns \<lparr> Elements = [groupLength 30, transferSyntax, patientName] \<rparr>
                 (Some ErrUnresolvableCharset),
               parserAt (readerAt unknownCharacterSetFile 204 [204])
                 [groupLength 30, transferSyntax, patientName] None)"
proof -
  let ?p = "parserAt (readerAt unknownCharacterSetFile 174 [204]) [groupLength 30, transferSyntax] None"
  let ?q = "parserAt (readerAt unknownCharacterSetFile 186 [204]) [groupLength 30, transferSyntax, patientName] None"
  have re: "readElement fileCollaborators (reader ?p) (Some (dataset ?p)) (frameChannel ?p \<noteq> None)
      = Inr (patientName, readerAt unknownCharacterSetFile 186 [204], [])"
    using turns_unknownCharacterSetFile(2) by (simp add: parserAt_def)
  have "decodes fileCollaborators ?p ([] @ [patientName]) ?q"
    using decodes_none turns_unknownCharacterSetFile(1) re turns_unknownCharacterSetFile(3)
    by (rule decodes_turn)
  then have run: "decodes fileCollaborators ?p [patientName] ?q" by simp
  have decoded: "readElement fileCollaborators (reader ?q) (Some (dataset ?q)) (frameChannel ?q \<noteq> None)
      = Inr (characterSet ''ISO_IR 999'', readerAt unknownCharacterSetFile 204 [204], [])"
    using turns_unknownCharacterSetFile(5) by (simp add: parserAt_def)
  have scs: "Tag (characterSet ''ISO_IR 999'') = SpecificCharacterSet"
    by (simp add: characterSet_def SpecificCharacterSet_def)
  have names: "MustGetStrings (Value (characterSet ''ISO_IR 999'')) = Inr [''ISO_IR 999'']"
    by (simp add: characterSet_def)
  have unresolved: "ParseSpecificCharacterSet fileCollaborators [''ISO_IR 999'']
      = Inl ErrUnresolvableCharset"
    by (simp add: fileCollaborators_def registryCharacterSet_def)
  have state: "?q\<lparr> reader := readerAt unknownCharacterSetFile 204 [204],
                   frameChannel := send [] (frameChannel ?q) \<rparr>
      = parserAt (readerAt unknownCharacterSetFile 204 [204])
          [groupLength 30, transferSyntax, patientName] None"
    by (simp add: parserAt_def send_def)
  have ds: "dataset ?q = \<lparr> Elements = [groupLength 30, transferSyntax, patientName] \<rparr>"
    by (simp add: parserAt_def)
  have returned: "ErrUnresolvableCharset \<noteq> GoPanic" by simp
  from unresolved_character_set_keeps_dataset
    [OF select_unknownCharacterSetFile run turns_unknownCharacterSetFile(4) decoded scs names
      unresolved returned]
  have "Parse fileCollaborators ?p
      = Some (Returns \<lparr> Elements = [groupLength 30, transferSyntax, patientName] \<rparr>
                (Some ErrUnresolvableCharset),
              parserAt (readerAt unknownCharacterSetFile 204 [204])
                [groupLength 30, transferSyntax, patientName] None)"
    unfolding state ds by simp
  with run turns_unknownCharacterSetFile(5) scs unresolved show ?thesis by simp
qed

subsection \<open>What NewParser reads\<close>



end
